theory Spec2Isabelle
  imports Complex_Main
begin

section \<open>Zero-noise extrapolation factories (mitiq/zne/inference.py)\<close>

text \<open>
  A shallow embedding of the factory classes of \<^verbatim>\<open>mitiq.zne.inference\<close>.
  Python floats are modelled as reals (no rounding, no NaN, no infinity; the divisions
  whose divisor can be zero are written out with what Python or numpy does there).
  Exceptions are values of type \<open>error\<close> on the left of a sum; a call that raises
  yields no state. Warnings are collected, in the order they are issued, in the field
  \<open>warned\<close> of the factory state. The calls into numpy and scipy
  (\<^verbatim>\<open>numpy.polyfit\<close>, \<^verbatim>\<open>scipy.optimize.curve_fit\<close>) are parameters of the model,
  gathered in the record \<open>backend\<close>: every general theorem holds for every backend.
  The caller-supplied executor, noise-scaling function and classical function are
  modelled as pure functions. Arguments have the types the annotations of the source
  give them, so the tests of the source on the type of an argument
  (\<^verbatim>\<open>isinstance\<close>, \<^verbatim>\<open>is None\<close> on a sequence) do not appear.
\<close>

subsection \<open>Errors, warnings and basic Python operations\<close>

datatype error =
    ValueError string
  | TypeError
  | IndexError
  | AttributeError
  | UnboundLocalError
  | RuntimeError
  | LinAlgError
  | ZeroDivisionError
  | ExtrapolationError string

datatype warning =
    ExtrapolationWarning
  | ConvergenceWarning
  | RankWarning
  | OptimizeWarning
  | RuntimeWarning
  | DeprecationWarning
  | OtherWarning

definition EXTR_ERR :: string where
  "EXTR_ERR = ''The extrapolation fit failed to converge. The problem may be solved by switching to a more stable extrapolation model such as LinearFactory.''"

definition DATA_MISSING_ERR :: string where
  "DATA_MISSING_ERR = ''Data is either ill-defined or not enough to evaluate the required information. Please make sure that the run and reduce methods have been called and that enough expectation values have been measured.''"

text \<open>Python indexing of a list: a negative index counts from the end, an index out of
  range raises IndexError.\<close>

definition py_nth :: "'a list \<Rightarrow> int \<Rightarrow> error + 'a" where
  "py_nth xs i =
     (let j = (if i < 0 then i + int (length xs) else i)
      in if j < 0 \<or> int (length xs) \<le> j then Inl IndexError else Inr (xs ! nat j))"

type_synonym matrix = "real list list"

text \<open>\<^verbatim>\<open>m.shape\<close> of a two-dimensional array given by its rows.\<close>

definition shape :: "matrix \<Rightarrow> int \<times> int" where
  "shape m = (int (length m), (case m of [] \<Rightarrow> 0 | r # _ \<Rightarrow> int (length r)))"

definition mat_get :: "matrix \<Rightarrow> int \<Rightarrow> int \<Rightarrow> error + real" where
  "mat_get m i j = (case py_nth m i of Inl e \<Rightarrow> Inl e | Inr r \<Rightarrow> py_nth r j)"

text \<open>\<^verbatim>\<open>numpy.polyval\<close>: coefficients from the highest power down, Horner's scheme.\<close>

definition polyval :: "real list \<Rightarrow> real \<Rightarrow> real" where
  "polyval p x = foldl (\<lambda>acc c. acc * x + c) 0 p"

text \<open>\<^verbatim>\<open>numpy.isclose\<close> and \<^verbatim>\<open>numpy.allclose\<close> with the default tolerances, on finite
  values. Two one-dimensional operands broadcast when they have the same length or one of
  them has length one; otherwise numpy raises ValueError.\<close>

definition np_isclose :: "real \<Rightarrow> real \<Rightarrow> bool" where
  "np_isclose a b = (\<bar>a - b\<bar> \<le> 1 / 10 ^ 8 + (1 / 10 ^ 5) * \<bar>b\<bar>)"

definition np_allclose :: "real list \<Rightarrow> real list \<Rightarrow> error + bool" where
  "np_allclose xs ys =
     (if length xs = length ys then Inr (list_all (\<lambda>(x, y). np_isclose x y) (zip xs ys))
      else (case ys of
              [y] \<Rightarrow> Inr (list_all (\<lambda>x. np_isclose x y) xs)
            | _ \<Rightarrow> (case xs of
                      [x] \<Rightarrow> Inr (list_all (\<lambda>y. np_isclose x y) ys)
                    | _ \<Rightarrow> Inl (ValueError ''operands could not be broadcast together''))))"

text \<open>\<^verbatim>\<open>numpy.isclose\<close> on the optional asymptote of a factory: when an operand is
  \<^verbatim>\<open>None\<close>, numpy builds an object array and \<^verbatim>\<open>isfinite\<close> raises TypeError.\<close>

definition np_isclose_opt :: "real option \<Rightarrow> real option \<Rightarrow> error + bool" where
  "np_isclose_opt a b =
     (case a of
        None \<Rightarrow> Inl TypeError
      | Some x \<Rightarrow> (case b of None \<Rightarrow> Inl TypeError | Some y \<Rightarrow> Inr (np_isclose x y)))"

text \<open>Short-circuit \<^verbatim>\<open>and\<close> of two tests that may raise: the second is evaluated only when
  the first is true.\<close>

definition and_then :: "error + bool \<Rightarrow> error + bool \<Rightarrow> error + bool" where
  "and_then a b = (case a of Inl e \<Rightarrow> Inl e | Inr t \<Rightarrow> (if t then b else Inr False))"

text \<open>Sequencing of computations that may raise.\<close>

definition bindE :: "error + 'a \<Rightarrow> ('a \<Rightarrow> error + 'b) \<Rightarrow> error + 'b" where
  "bindE m f = (case m of Inl e \<Rightarrow> Inl e | Inr x \<Rightarrow> f x)"

subsection \<open>The numerical backend\<close>

text \<open>
  \<open>np_polyfit_cov xs ys deg w\<close> is \<^verbatim>\<open>numpy.polyfit(xs, ys, deg, w=w, cov=True)\<close>,
  \<open>np_polyfit xs ys deg w\<close> is \<^verbatim>\<open>numpy.polyfit(xs, ys, deg, w=w)\<close>, and
  \<open>curve_fit ansatz xs ys p0\<close> is \<^verbatim>\<open>scipy.optimize.curve_fit(ansatz, xs, ys, p0=p0)\<close>.
  \<open>np_polyfit\<close> and \<open>curve_fit\<close> return their result together with the categories of
  the warnings they issued, or the exception they raised. \<open>np_polyfit_cov\<close> returns the
  warnings it issued also when it raises: \<^verbatim>\<open>mitiq_polyfit\<close> records them across its
  \<^verbatim>\<open>except\<close> clause and issues them again with those of the second fit.
\<close>

type_synonym curve = "real \<Rightarrow> error + real"

record backend =
  np_polyfit_cov :: "real list \<Rightarrow> real list \<Rightarrow> int \<Rightarrow> real list option
                      \<Rightarrow> (error + (real list \<times> matrix)) \<times> warning list"
  np_polyfit :: "real list \<Rightarrow> real list \<Rightarrow> int \<Rightarrow> real list option
                      \<Rightarrow> error + (real list \<times> warning list)"
  curve_fit :: "(real \<Rightarrow> real list \<Rightarrow> error + real) \<Rightarrow> real list \<Rightarrow> real list \<Rightarrow> real list option
                      \<Rightarrow> error + ((real list \<times> matrix) \<times> warning list)"

definition is_ValueError :: "error \<Rightarrow> bool" where
  "is_ValueError e = (case e of ValueError _ \<Rightarrow> True | _ \<Rightarrow> False)"

definition relabel :: "warning \<Rightarrow> warning \<Rightarrow> warning" where
  "relabel src w = (if w = src then ExtrapolationWarning else w)"

definition mitiq_curve_fit ::
  "backend \<Rightarrow> (real \<Rightarrow> real list \<Rightarrow> error + real) \<Rightarrow> real list \<Rightarrow> real list \<Rightarrow> real list option
     \<Rightarrow> error + ((real list \<times> matrix) \<times> warning list)" where
  "mitiq_curve_fit be ansatz scale_factors exp_values init_params =
     (case curve_fit be ansatz scale_factors exp_values init_params of
        Inl e \<Rightarrow> (if e = RuntimeError then Inl (ExtrapolationError EXTR_ERR) else Inl e)
      | Inr ((opt_params, params_cov), warn_list) \<Rightarrow>
          Inr ((opt_params, params_cov), map (relabel OptimizeWarning) warn_list))"

definition mitiq_polyfit ::
  "backend \<Rightarrow> real list \<Rightarrow> real list \<Rightarrow> int \<Rightarrow> real list option
     \<Rightarrow> error + ((real list \<times> matrix option) \<times> warning list)" where
  "mitiq_polyfit be scale_factors exp_values deg weights =
     (case np_polyfit_cov be scale_factors exp_values deg weights of
        (Inr (opt_params, params_cov), warn_list) \<Rightarrow>
          Inr ((opt_params, Some params_cov), map (relabel RankWarning) warn_list)
      | (Inl e, warn_list) \<Rightarrow>
          (if is_ValueError e \<or> e = LinAlgError
           then (case np_polyfit be scale_factors exp_values deg weights of
                   Inl e' \<Rightarrow> Inl e'
                 | Inr (opt_params, warn_list2) \<Rightarrow>
                     Inr ((opt_params, None),
                          map (relabel RankWarning) (warn_list @ warn_list2)))
           else Inl e))"

subsection \<open>Factory: the state and the operations of the abstract base class\<close>

text \<open>
  An input record is a dictionary that always holds the key \<^verbatim>\<open>scale_factor\<close>; the other
  keys (such as \<^verbatim>\<open>shots\<close>) are the keyword arguments of the executor.
  The output stack is a Python list, until \<^verbatim>\<open>BatchedFactory.run\<close> replaces it by a numpy
  array.
\<close>

type_synonym kwargs = "string \<rightharpoonup> real"

record in_record =
  scale_factor :: real
  others :: kwargs

datatype pyseq = PyList "real list" | NdArray "real list"

fun elems :: "pyseq \<Rightarrow> real list" where
  "elems (PyList xs) = xs"
| "elems (NdArray xs) = xs"

record factory =
  instack :: "in_record list"
  outstack :: pyseq
  opt_params :: "real list option"
  params_cov :: "matrix option"
  zne_limit :: "real option"
  zne_error :: "real option"
  zne_curve :: "curve option"
  already_reduced :: bool
  warned :: "warning list"

definition Factory_init :: factory where
  "Factory_init =
     \<lparr> instack = [], outstack = PyList [], opt_params = None, params_cov = None,
       zne_limit = None, zne_error = None, zne_curve = None, already_reduced = False,
       warned = [] \<rparr>"

definition get_scale_factors :: "'a factory_scheme \<Rightarrow> real list" where
  "get_scale_factors self = map in_record.scale_factor (instack self)"

definition get_expectation_values :: "'a factory_scheme \<Rightarrow> real list" where
  "get_expectation_values self = elems (outstack self)"

definition get_optimal_parameters :: "'a factory_scheme \<Rightarrow> error + real list" where
  "get_optimal_parameters self =
     (case opt_params self of None \<Rightarrow> Inl (ValueError DATA_MISSING_ERR) | Some p \<Rightarrow> Inr p)"

definition get_parameters_covariance :: "'a factory_scheme \<Rightarrow> error + matrix" where
  "get_parameters_covariance self =
     (case params_cov self of None \<Rightarrow> Inl (ValueError DATA_MISSING_ERR) | Some c \<Rightarrow> Inr c)"

definition get_zero_noise_limit :: "'a factory_scheme \<Rightarrow> error + real" where
  "get_zero_noise_limit self =
     (case zne_limit self of None \<Rightarrow> Inl (ValueError DATA_MISSING_ERR) | Some l \<Rightarrow> Inr l)"

definition get_zero_noise_limit_error :: "'a factory_scheme \<Rightarrow> error + real" where
  "get_zero_noise_limit_error self =
     (case zne_error self of None \<Rightarrow> Inl (ValueError DATA_MISSING_ERR) | Some e \<Rightarrow> Inr e)"

definition get_extrapolation_curve :: "'a factory_scheme \<Rightarrow> error + curve" where
  "get_extrapolation_curve self =
     (case zne_curve self of None \<Rightarrow> Inl (ValueError DATA_MISSING_ERR) | Some c \<Rightarrow> Inr c)"

text \<open>\<^verbatim>\<open>push\<close>: warns when the factory has already been reduced, then appends to both
  stacks. A numpy array has no \<^verbatim>\<open>append\<close>: after \<^verbatim>\<open>BatchedFactory.run\<close> the second
  append raises AttributeError.\<close>

definition push :: "'a factory_scheme \<Rightarrow> in_record \<Rightarrow> real \<Rightarrow> error + 'a factory_scheme" where
  "push self instack_val outstack_val =
     (let ws = (if already_reduced self then warned self @ [ExtrapolationWarning]
                else warned self)
      in case outstack self of
           NdArray _ \<Rightarrow> Inl AttributeError
         | PyList ys \<Rightarrow>
             Inr (self\<lparr> instack := instack self @ [instack_val],
                        outstack := PyList (ys @ [outstack_val]),
                        warned := ws \<rparr>))"

text \<open>\<^verbatim>\<open>reset\<close>: the assignments of the source, in its order. The source assigns nothing to
  \<^verbatim>\<open>_zne_curve\<close>.\<close>

definition reset :: "'a factory_scheme \<Rightarrow> 'a factory_scheme" where
  "reset self =
     self\<lparr> instack := [], outstack := PyList [], opt_params := None, params_cov := None,
           zne_limit := None, zne_error := None, already_reduced := False \<rparr>"

text \<open>\<^verbatim>\<open>Factory.__eq__\<close> for another factory. \<^verbatim>\<open>_are_close_dict\<close> lives in
  \<^verbatim>\<open>mitiq.utils\<close> and is a parameter here.\<close>

definition Factory_eq ::
  "(in_record \<Rightarrow> in_record \<Rightarrow> bool) \<Rightarrow> 'a factory_scheme \<Rightarrow> 'b factory_scheme \<Rightarrow> error + bool" where
  "Factory_eq are_close_dict self other =
     (if already_reduced self \<noteq> already_reduced other then Inr False
      else if length (instack self) \<noteq> length (instack other) then Inr False
      else if \<not> list_all (\<lambda>(dict_a, dict_b). are_close_dict dict_a dict_b)
                   (zip (instack self) (instack other)) then Inr False
      else np_allclose (elems (outstack self)) (elems (outstack other)))"

subsection \<open>BatchedFactory\<close>

text \<open>An element of the \<^verbatim>\<open>shot_list\<close> argument, before it has been checked.\<close>

datatype pyval = PyInt int | PyFloat real | PyStr string | PyNone

fun as_int :: "pyval \<Rightarrow> int option" where
  "as_int (PyInt n) = Some n"
| "as_int _ = None"

record batched_factory = factory +
  scale_factors :: "real list"
  shot_list :: "int list option"

text \<open>Truth value of an optional list: \<^verbatim>\<open>None\<close> and the empty list are false.\<close>

fun truthy :: "'a list option \<Rightarrow> bool" where
  "truthy None = False"
| "truthy (Some xs) = (xs \<noteq> [])"

fun items :: "'a list option \<Rightarrow> 'a list" where
  "items None = []"
| "items (Some xs) = xs"

definition BatchedFactory_init ::
  "real list \<Rightarrow> pyval list option \<Rightarrow> error + batched_factory" where
  "BatchedFactory_init sfs shots =
     (if length sfs < 2 then Inl (ValueError ''At least 2 scale factors are necessary.'')
      else if truthy shots \<and> \<not> list_all (\<lambda>s. as_int s \<noteq> None) (items shots)
        then Inl TypeError
      else if truthy shots \<and> length sfs \<noteq> length (items shots) then Inl IndexError
      else Inr (factory.extend Factory_init
                  \<lparr> scale_factors = sfs,
                    shot_list = map_option (List.map_filter as_int) shots \<rparr>))"

text \<open>An executor is either a function of one circuit and its keyword arguments, or a
  batched executor: a function of a list of circuits and, optionally, the list of their
  keyword arguments. \<^verbatim>\<open>_is_executor_batched\<close> reads the annotation of the return type,
  which is the constructor here.\<close>

datatype 'c executor =
    Single "'c \<Rightarrow> kwargs \<Rightarrow> real"
  | Batched "'c list \<Rightarrow> kwargs list option \<Rightarrow> real list"

fun is_executor_batched :: "'c executor \<Rightarrow> bool" where
  "is_executor_batched (Single _) = False"
| "is_executor_batched (Batched _) = True"

definition generate_circuits ::
  "'a factory_scheme \<Rightarrow> 'c \<Rightarrow> ('c \<Rightarrow> real \<Rightarrow> 'c) \<Rightarrow> int \<Rightarrow> 'c list" where
  "generate_circuits self circuit scale_noise num_to_average =
     concat (map (\<lambda>sf. replicate (nat num_to_average) (scale_noise circuit sf))
                 (get_scale_factors self))"

definition batch_populate_instack :: "'a batched_factory_scheme \<Rightarrow> 'a batched_factory_scheme" where
  "batch_populate_instack self =
     (if truthy (shot_list self)
      then self\<lparr> instack := map (\<lambda>(scale, shots).
                                 \<lparr> scale_factor = scale, others = [''shots'' \<mapsto> real_of_int shots] \<rparr>)
                               (zip (scale_factors self) (items (shot_list self))) \<rparr>
      else self\<lparr> instack := map (\<lambda>scale. \<lparr> scale_factor = scale, others = Map.empty \<rparr>)
                               (scale_factors self) \<rparr>)"

definition get_keyword_args :: "'a factory_scheme \<Rightarrow> int \<Rightarrow> kwargs list" where
  "get_keyword_args self num_to_average =
     concat (map (\<lambda>d. replicate (nat num_to_average) (others d)) (instack self))"

text \<open>\<^verbatim>\<open>np.array(res).reshape((-1, k))\<close> followed by \<^verbatim>\<open>np.average(..., axis=1)\<close>: the
  reshape raises ValueError unless \<open>k\<close> is positive and divides the number of results.\<close>

definition reshape_rows :: "real list \<Rightarrow> int \<Rightarrow> error + real list list" where
  "reshape_rows res k =
     (if k \<le> 0 then Inl (ValueError ''cannot reshape array'')
      else if length res mod nat k \<noteq> 0 then Inl (ValueError ''cannot reshape array'')
      else Inr (map (\<lambda>i. take (nat k) (drop (i * nat k) res)) [0 ..< length res div nat k]))"

text \<open>\<^verbatim>\<open>np.average\<close> of a list of floats. Of the empty list numpy makes NaN (with a
  warning), which a real number cannot show: \<open>average []\<close> is \<open>0\<close> here, and nothing
  below depends on that value.\<close>

definition average :: "real list \<Rightarrow> real" where
  "average xs = sum_list xs / real (length xs)"

definition BatchedFactory_run ::
  "'a batched_factory_scheme \<Rightarrow> 'c \<Rightarrow> 'c executor \<Rightarrow> ('c \<Rightarrow> real \<Rightarrow> 'c) \<Rightarrow> int
     \<Rightarrow> error + 'a batched_factory_scheme" where
  "BatchedFactory_run self0 qp executor scale_noise num_to_average =
     (let self = batch_populate_instack (reset self0);
          to_run = generate_circuits self qp scale_noise num_to_average;
          kwargs_list = get_keyword_args self num_to_average;
          res = (case executor of
                   Batched ex \<Rightarrow>
                     (if list_all (\<lambda>kw. kw = Map.empty) kwargs_list then ex to_run None
                      else ex to_run (Some kwargs_list))
                 | Single ex \<Rightarrow> map (\<lambda>(circ, kw). ex circ kw) (zip to_run kwargs_list))
      in case reshape_rows res num_to_average of
           Inl e \<Rightarrow> Inl e
         | Inr rows \<Rightarrow> Inr (self\<lparr> outstack := NdArray (map average rows) \<rparr>))"

definition BatchedFactory_run_classical ::
  "'a batched_factory_scheme \<Rightarrow> (real \<Rightarrow> kwargs \<Rightarrow> real) \<Rightarrow> 'a batched_factory_scheme" where
  "BatchedFactory_run_classical self0 scale_factor_to_expectation_value =
     (let self = batch_populate_instack (reset self0);
          kwargs_list = get_keyword_args self 1
      in self\<lparr> outstack := PyList (map (\<lambda>(sf, kw). scale_factor_to_expectation_value sf kw)
                                         (zip (scale_factors self) kwargs_list)) \<rparr>)"

definition BatchedFactory_eq ::
  "(in_record \<Rightarrow> in_record \<Rightarrow> bool) \<Rightarrow> 'a batched_factory_scheme \<Rightarrow> 'b batched_factory_scheme
     \<Rightarrow> error + bool" where
  "BatchedFactory_eq are_close_dict self other =
     and_then (Factory_eq are_close_dict self other)
              (np_allclose (scale_factors self) (scale_factors other))"

subsection \<open>AdaptiveFactory\<close>

text \<open>The loop of \<^verbatim>\<open>AdaptiveFactory.run_classical\<close>; \<open>is_converged\<close> and \<open>next\<close> are
  the abstract methods of the class. It returns the final counter and the factory.\<close>

function run_classical_loop ::
  "('a factory_scheme \<Rightarrow> error + bool) \<Rightarrow> ('a factory_scheme \<Rightarrow> error + in_record \<times> 'a factory_scheme)
     \<Rightarrow> (real \<Rightarrow> kwargs \<Rightarrow> real) \<Rightarrow> int \<Rightarrow> int \<Rightarrow> 'a factory_scheme
     \<Rightarrow> error + int \<times> 'a factory_scheme" where
  "run_classical_loop is_converged nxt f max_iterations counter self =
     (case is_converged self of
        Inl e \<Rightarrow> Inl e
      | Inr conv \<Rightarrow>
          (if \<not> conv \<and> counter < max_iterations
           then (case nxt self of
                   Inl e \<Rightarrow> Inl e
                 | Inr (next_in_params, self1) \<Rightarrow>
                     (case push self1 next_in_params
                             (f (in_record.scale_factor next_in_params) (others next_in_params)) of
                        Inl e \<Rightarrow> Inl e
                      | Inr self2 \<Rightarrow>
                          run_classical_loop is_converged nxt f max_iterations (counter + 1) self2))
           else Inr (counter, self)))"
  by pat_completeness auto
termination
  by (relation "measure (\<lambda>(c, n, f, max_iterations, counter, s). nat (max_iterations - counter))") auto

definition AdaptiveFactory_run_classical ::
  "('a factory_scheme \<Rightarrow> error + bool) \<Rightarrow> ('a factory_scheme \<Rightarrow> error + in_record \<times> 'a factory_scheme)
     \<Rightarrow> 'a factory_scheme \<Rightarrow> (real \<Rightarrow> kwargs \<Rightarrow> real) \<Rightarrow> int \<Rightarrow> error + 'a factory_scheme" where
  "AdaptiveFactory_run_classical is_converged nxt self f max_iterations =
     (case run_classical_loop is_converged nxt f max_iterations 0 (reset self) of
        Inl e \<Rightarrow> Inl e
      | Inr (counter, self1) \<Rightarrow>
          (if counter = max_iterations
           then Inr (self1\<lparr> warned := warned self1 @ [ConvergenceWarning] \<rparr>)
           else Inr self1))"

definition AdaptiveFactory_run ::
  "('a factory_scheme \<Rightarrow> error + bool) \<Rightarrow> ('a factory_scheme \<Rightarrow> error + in_record \<times> 'a factory_scheme)
     \<Rightarrow> 'a factory_scheme \<Rightarrow> 'c \<Rightarrow> ('c \<Rightarrow> kwargs \<Rightarrow> real) \<Rightarrow> ('c \<Rightarrow> real \<Rightarrow> 'c) \<Rightarrow> int \<Rightarrow> int
     \<Rightarrow> error + 'a factory_scheme" where
  "AdaptiveFactory_run is_converged nxt self qp executor scale_noise num_to_average max_iterations =
     AdaptiveFactory_run_classical is_converged nxt self
       (\<lambda>sf exec_params.
          average (replicate (nat num_to_average) (executor (scale_noise qp sf) exec_params)))
       max_iterations"

subsection \<open>Results of the static \<^verbatim>\<open>extrapolate\<close> methods\<close>

text \<open>\<open>Limit l\<close> is the float returned when \<^verbatim>\<open>full_output\<close> is false, \<open>Full\<close> the tuple
  \<^verbatim>\<open>(zne_limit, zne_error, opt_params, params_cov, zne_curve)\<close>. Every method
  also yields the warnings issued by its fits.\<close>

datatype extrap_out =
    Limit real
  | Full real "real option" "real list" "matrix option" curve

type_synonym extrap_result = "error + (extrap_out \<times> warning list)"

text \<open>The tuple assignment shared by all \<^verbatim>\<open>reduce\<close> methods, followed by
  \<^verbatim>\<open>self._already_reduced = True\<close>. Unpacking a float raises TypeError.\<close>

definition store_fit ::
  "extrap_out \<times> warning list \<Rightarrow> 'a factory_scheme \<Rightarrow> error + real \<times> 'a factory_scheme" where
  "store_fit r self =
     (case r of
        (Limit _, _) \<Rightarrow> Inl TypeError
      | (Full l e p c f, ws) \<Rightarrow>
          Inr (l, self\<lparr> zne_limit := Some l, zne_error := e, opt_params := Some p,
                          params_cov := c, zne_curve := Some f, already_reduced := True,
                          warned := warned self @ ws \<rparr>))"

subsection \<open>PolyFactory, RichardsonFactory, LinearFactory\<close>

record poly_factory = batched_factory +
  order :: int

definition PolyFactory_init ::
  "real list \<Rightarrow> int \<Rightarrow> pyval list option \<Rightarrow> error + poly_factory" where
  "PolyFactory_init sfs ord shots =
     (if ord > int (length sfs) - 1
      then Inl (ValueError ''The extrapolation order cannot exceed len(scale_factors) - 1.'')
      else bindE (BatchedFactory_init sfs shots)
             (\<lambda>b. Inr (batched_factory.extend b \<lparr> order = ord \<rparr>)))"

definition PolyFactory_extrapolate ::
  "backend \<Rightarrow> real list \<Rightarrow> real list \<Rightarrow> int \<Rightarrow> bool \<Rightarrow> extrap_result" where
  "PolyFactory_extrapolate be sfs exp_values ord full_output =
     bindE (mitiq_polyfit be sfs exp_values ord None) (\<lambda>((opt_params, params_cov), ws).
     bindE (py_nth opt_params (- 1)) (\<lambda>zne_limit.
       if \<not> full_output then Inr (Limit zne_limit, ws)
       else
         bindE (case params_cov of
                  None \<Rightarrow> Inr None
                | Some c \<Rightarrow>
                    (if shape c = (ord + 1, ord + 1)
                     then bindE (mat_get c ord ord) (\<lambda>v. Inr (Some (sqrt v)))
                     else Inr None)) (\<lambda>zne_error.
         Inr (Full zne_limit zne_error opt_params params_cov
                (\<lambda>sf. Inr (polyval opt_params sf)), ws))))"

definition PolyFactory_reduce ::
  "backend \<Rightarrow> 'a poly_factory_scheme \<Rightarrow> error + real \<times> 'a poly_factory_scheme" where
  "PolyFactory_reduce be self =
     bindE (PolyFactory_extrapolate be (get_scale_factors self) (get_expectation_values self)
              (order self) True)
       (\<lambda>r. store_fit r self)"

definition PolyFactory_eq ::
  "(in_record \<Rightarrow> in_record \<Rightarrow> bool) \<Rightarrow> 'a poly_factory_scheme \<Rightarrow> 'b poly_factory_scheme
     \<Rightarrow> error + bool" where
  "PolyFactory_eq are_close_dict self other =
     and_then (BatchedFactory_eq are_close_dict self other) (Inr (order self = order other))"

definition RichardsonFactory_extrapolate ::
  "backend \<Rightarrow> real list \<Rightarrow> real list \<Rightarrow> bool \<Rightarrow> extrap_result" where
  "RichardsonFactory_extrapolate be sfs exp_values full_output =
     (let ord = int (length sfs) - 1
      in PolyFactory_extrapolate be sfs exp_values ord full_output)"

definition RichardsonFactory_reduce ::
  "backend \<Rightarrow> 'a batched_factory_scheme \<Rightarrow> error + real \<times> 'a batched_factory_scheme" where
  "RichardsonFactory_reduce be self =
     bindE (RichardsonFactory_extrapolate be (get_scale_factors self)
              (get_expectation_values self) True)
       (\<lambda>r. store_fit r self)"

definition LinearFactory_extrapolate ::
  "backend \<Rightarrow> real list \<Rightarrow> real list \<Rightarrow> bool \<Rightarrow> extrap_result" where
  "LinearFactory_extrapolate be sfs exp_values full_output =
     PolyFactory_extrapolate be sfs exp_values 1 full_output"

definition LinearFactory_reduce ::
  "backend \<Rightarrow> 'a batched_factory_scheme \<Rightarrow> error + real \<times> 'a batched_factory_scheme" where
  "LinearFactory_reduce be self =
     bindE (LinearFactory_extrapolate be (get_scale_factors self)
              (get_expectation_values self) True)
       (\<lambda>r. store_fit r self)"

subsection \<open>FakeNodesFactory\<close>

text \<open>The map \<open>S\<close> to the Chebyshev-Lobatto points. With Python floats, \<open>b = a\<close> makes
  the division raise ZeroDivisionError.\<close>

definition S_map :: "real \<Rightarrow> real \<Rightarrow> real \<Rightarrow> error + real" where
  "S_map a b x =
     (if b - a = 0 then Inl ZeroDivisionError
      else Inr ((a - b) / 2 * cos (pi * (x - a) / (b - a)) + (a + b) / 2))"

text \<open>\<^verbatim>\<open>_map_to_fake_nodes\<close> on a float and on a sequence.\<close>

definition map_to_fake_nodes :: "real \<Rightarrow> real \<Rightarrow> real \<Rightarrow> error + real" where
  "map_to_fake_nodes x a b = S_map a b x"

fun map_to_fake_nodes_seq :: "real list \<Rightarrow> real \<Rightarrow> real \<Rightarrow> error + real list" where
  "map_to_fake_nodes_seq [] a b = Inr []"
| "map_to_fake_nodes_seq (y # ys) a b =
     bindE (S_map a b y) (\<lambda>s. bindE (map_to_fake_nodes_seq ys a b) (\<lambda>ss. Inr (s # ss)))"

definition np_diff :: "real list \<Rightarrow> real list" where
  "np_diff xs = map (\<lambda>(u, v). v - u) (zip xs (tl xs))"

definition is_equally_spaced :: "real list \<Rightarrow> error + bool" where
  "is_equally_spaced arr =
     (let diff_arr = np_diff (sort arr)
      in case diff_arr of
           [] \<Rightarrow> Inl IndexError
         | d0 # _ \<Rightarrow> Inr (list_all (\<lambda>d. np_isclose d d0) diff_arr))"

definition py_min :: "real list \<Rightarrow> error + real" where
  "py_min xs = (case xs of [] \<Rightarrow> Inl (ValueError ''min() arg is an empty sequence'')
                | x # r \<Rightarrow> Inr (foldl min x r))"

definition py_max :: "real list \<Rightarrow> error + real" where
  "py_max xs = (case xs of [] \<Rightarrow> Inl (ValueError ''max() arg is an empty sequence'')
                | x # r \<Rightarrow> Inr (foldl max x r))"

text \<open>In the branch for \<^verbatim>\<open>full_output=True\<close> the source defines \<^verbatim>\<open>new_curve\<close>, the
  composition of the fitted curve with the map to the fake nodes, and then returns
  \<^verbatim>\<open>zne_curve\<close>.\<close>

definition FakeNodesFactory_extrapolate ::
  "backend \<Rightarrow> real list \<Rightarrow> real list \<Rightarrow> bool \<Rightarrow> extrap_result" where
  "FakeNodesFactory_extrapolate be sfs exp_values full_output =
     bindE (is_equally_spaced sfs) (\<lambda>spaced.
       if \<not> spaced then Inl (ValueError ''The scale factors must be equally spaced.'')
       else
         bindE (py_min sfs) (\<lambda>mn. bindE (py_max sfs) (\<lambda>mx.
         let a = 0; b = mn + mx
         in bindE (map_to_fake_nodes_seq sfs a b) (\<lambda>fake_nodes.
              if \<not> full_output then RichardsonFactory_extrapolate be fake_nodes exp_values False
              else
                bindE (RichardsonFactory_extrapolate be fake_nodes exp_values True) (\<lambda>r.
                  case r of
                    (Limit _, _) \<Rightarrow> Inl TypeError
                  | (Full limit err params cov curve, ws) \<Rightarrow>
                      (let new_curve = (\<lambda>sf. bindE (map_to_fake_nodes sf a b) curve)
                       in Inr (Full limit err params cov curve, ws)))))))"

definition FakeNodesFactory_reduce ::
  "backend \<Rightarrow> 'a batched_factory_scheme \<Rightarrow> error + real \<times> 'a batched_factory_scheme" where
  "FakeNodesFactory_reduce be self =
     bindE (FakeNodesFactory_extrapolate be (get_scale_factors self)
              (get_expectation_values self) True)
       (\<lambda>r. store_fit r self)"

subsection \<open>PolyExpFactory and ExpFactory\<close>

text \<open>The two ansatz functions of \<^verbatim>\<open>PolyExpFactory.extrapolate\<close>.\<close>

definition ansatz_unknown :: "real \<Rightarrow> real list \<Rightarrow> error + real" where
  "ansatz_unknown x coeffs =
     (let z_coeffs = rev (drop 2 coeffs)
      in bindE (py_nth coeffs 0) (\<lambda>c0. bindE (py_nth coeffs 1) (\<lambda>c1.
           Inr (c0 + c1 * exp (x * polyval z_coeffs x)))))"

definition ansatz_known :: "real \<Rightarrow> real \<Rightarrow> real list \<Rightarrow> error + real" where
  "ansatz_known asymptote x coeffs =
     (let z_coeffs = rev (drop 1 coeffs)
      in bindE (py_nth coeffs 0) (\<lambda>c0.
           Inr (asymptote + c0 * exp (x * polyval z_coeffs x))))"

text \<open>CASE 1: the asymptote is \<^verbatim>\<open>None\<close>.\<close>

definition PolyExp_case1 ::
  "backend \<Rightarrow> real list \<Rightarrow> real list \<Rightarrow> int \<Rightarrow> bool \<Rightarrow> real \<Rightarrow> warning list \<Rightarrow> extrap_result" where
  "PolyExp_case1 be sfs exp_values ord full_output sign ws0 =
     (let p_zero = [0, sign, - 1] @ replicate (nat (ord - 1)) 0
      in bindE (mitiq_curve_fit be ansatz_unknown sfs exp_values (Some p_zero))
           (\<lambda>((opt_params, params_cov), ws1).
         bindE (py_nth opt_params 0) (\<lambda>p0. bindE (py_nth opt_params 1) (\<lambda>p1.
         let zne_limit = p0 + p1;
             zne_curve = (\<lambda>sf. ansatz_unknown sf opt_params)
         in bindE (if shape params_cov = (ord + 2, ord + 2)
                   then bindE (mat_get params_cov 0 0) (\<lambda>c00.
                        bindE (mat_get params_cov 0 1) (\<lambda>c01.
                        bindE (mat_get params_cov 1 1) (\<lambda>c11.
                          Inr (Some (sqrt (c00 + 2 * c01 + c11))))))
                   else Inr None) (\<lambda>zne_error.
            if full_output
            then Inr (Full zne_limit zne_error opt_params (Some params_cov) zne_curve, ws0 @ ws1)
            else Inr (Limit zne_limit, ws0 @ ws1))))))"

text \<open>CASE 2: the asymptote is given and \<^verbatim>\<open>avoid_log\<close> is true. The closure
  \<^verbatim>\<open>zne_curve\<close> reads the name \<^verbatim>\<open>opt_params\<close> when it is called, that is after the
  source has rebound it to \<^verbatim>\<open>[asymptote] + list(opt_params)\<close>: the returned curve
  applies the ansatz to the list that starts with the asymptote.\<close>

definition PolyExp_case2 ::
  "backend \<Rightarrow> real list \<Rightarrow> real list \<Rightarrow> int \<Rightarrow> real \<Rightarrow> bool \<Rightarrow> real \<Rightarrow> warning list
     \<Rightarrow> extrap_result" where
  "PolyExp_case2 be sfs exp_values ord asymptote full_output sign ws0 =
     (let p_zero = [sign, - 1] @ replicate (nat (ord - 1)) 0
      in bindE (mitiq_curve_fit be (ansatz_known asymptote) sfs exp_values (Some p_zero))
           (\<lambda>((fit_params, params_cov), ws1).
         bindE (py_nth fit_params 0) (\<lambda>p0.
         let zne_limit = asymptote + p0;
             zne_curve = (\<lambda>sf. ansatz_known asymptote sf (asymptote # fit_params))
         in bindE (if shape params_cov = (ord + 1, ord + 1)
                   then bindE (mat_get params_cov 0 0) (\<lambda>c00. Inr (Some (sqrt c00)))
                   else Inr None) (\<lambda>zne_error.
            let opt_params = asymptote # fit_params
            in if full_output
               then Inr (Full zne_limit zne_error opt_params (Some params_cov) zne_curve, ws0 @ ws1)
               else Inr (Limit zne_limit, ws0 @ ws1)))))"

text \<open>CASE 3: the asymptote is given and \<^verbatim>\<open>avoid_log\<close> is false. The source binds the
  covariance of the polynomial fit to the name \<^verbatim>\<open>param_cov\<close>, tests and returns
  \<^verbatim>\<open>params_cov\<close> (still \<^verbatim>\<open>None\<close>), binds the limit to \<^verbatim>\<open>zero_limit\<close>, and ends with
  \<^verbatim>\<open>return zne_limit\<close>, a local name that has no value in this branch.\<close>

definition PolyExp_case3 ::
  "backend \<Rightarrow> real list \<Rightarrow> real list \<Rightarrow> int \<Rightarrow> real \<Rightarrow> real \<Rightarrow> bool \<Rightarrow> real \<Rightarrow> warning list
     \<Rightarrow> extrap_result" where
  "PolyExp_case3 be sfs exp_values ord asymptote eps full_output sign ws0 =
     (let zne_error0 = (None :: real option);
          params_cov = (None :: matrix option);
          shifted_y = map (\<lambda>y. max (sign * (y - asymptote)) eps) exp_values;
          zstack = map ln shifted_y
      in bindE (mitiq_polyfit be sfs zstack ord (Some (map (\<lambda>s. sqrt \<bar>s\<bar>) shifted_y)))
           (\<lambda>((z_coefficients, param_cov), ws1).
         bindE (py_nth z_coefficients (- 1)) (\<lambda>z_last.
         let zero_limit = asymptote + sign * exp z_last;
             zne_curve = (\<lambda>sf. Inr (asymptote + sign * exp (polyval z_coefficients sf)))
         in bindE (case params_cov of
                     None \<Rightarrow> Inr zne_error0
                   | Some c \<Rightarrow>
                       (if shape c = (ord + 1, ord + 1)
                        then bindE (mat_get c (ord + 1) (ord + 1))
                               (\<lambda>v. Inr (Some (exp z_last * sqrt v)))
                        else Inr zne_error0)) (\<lambda>zne_error.
            let opt_params = asymptote # rev z_coefficients
            in if full_output
               then Inr (Full zero_limit zne_error opt_params params_cov zne_curve, ws0 @ ws1)
               else Inl UnboundLocalError))))"

definition PolyExpFactory_extrapolate ::
  "backend \<Rightarrow> real list \<Rightarrow> real list \<Rightarrow> int \<Rightarrow> real option \<Rightarrow> bool \<Rightarrow> real \<Rightarrow> bool
     \<Rightarrow> extrap_result" where
  "PolyExpFactory_extrapolate be sfs exp_values ord asymptote avoid_log eps full_output =
     (let shift = (if asymptote = None then 1 else 0 :: int);
          error_str = ''Data is not enough: at least two data points are necessary.''
      in if length sfs \<noteq> length exp_values \<or> length sfs < 2 then Inl (ValueError error_str)
         else if ord > int (length sfs) - (1 + shift)
           then Inl (ValueError ''Extrapolation order is too high.'')
         else
           bindE (mitiq_polyfit be sfs exp_values 1 None) (\<lambda>((linear_params, _), ws0).
           bindE (py_nth linear_params 0) (\<lambda>slope.
           let sign = sgn (- slope)
           in case asymptote of
                None \<Rightarrow> PolyExp_case1 be sfs exp_values ord full_output sign ws0
              | Some asy \<Rightarrow>
                  (if avoid_log
                   then PolyExp_case2 be sfs exp_values ord asy full_output sign ws0
                   else PolyExp_case3 be sfs exp_values ord asy eps full_output sign ws0))))"

definition ExpFactory_extrapolate ::
  "backend \<Rightarrow> real list \<Rightarrow> real list \<Rightarrow> real option \<Rightarrow> bool \<Rightarrow> real \<Rightarrow> bool \<Rightarrow> extrap_result" where
  "ExpFactory_extrapolate be sfs exp_values asymptote avoid_log eps full_output =
     PolyExpFactory_extrapolate be sfs exp_values 1 asymptote avoid_log eps full_output"

record exp_factory = batched_factory +
  asymptote :: "real option"
  avoid_log :: bool

record polyexp_factory = batched_factory +
  order :: int
  asymptote :: "real option"
  avoid_log :: bool

definition PolyExpFactory_init ::
  "real list \<Rightarrow> int \<Rightarrow> real option \<Rightarrow> bool \<Rightarrow> pyval list option \<Rightarrow> error + polyexp_factory" where
  "PolyExpFactory_init sfs ord asy alog shots =
     bindE (BatchedFactory_init sfs shots)
       (\<lambda>b. Inr (batched_factory.extend b \<lparr> order = ord, asymptote = asy, avoid_log = alog \<rparr>))"

definition ExpFactory_init ::
  "real list \<Rightarrow> real option \<Rightarrow> bool \<Rightarrow> pyval list option \<Rightarrow> error + exp_factory" where
  "ExpFactory_init sfs asy alog shots =
     bindE (BatchedFactory_init sfs shots)
       (\<lambda>b. Inr (batched_factory.extend b
                   \<lparr> exp_factory.asymptote = asy, exp_factory.avoid_log = alog \<rparr>))"

text \<open>Truth value of an optional float: \<^verbatim>\<open>None\<close> and \<^verbatim>\<open>0.0\<close> are false.\<close>

fun truthy_float :: "real option \<Rightarrow> bool" where
  "truthy_float None = False"
| "truthy_float (Some x) = (x \<noteq> 0)"

text \<open>The \<^verbatim>\<open>__eq__\<close> methods, for another factory of the same class (so that the
  \<^verbatim>\<open>isinstance\<close> tests hold).\<close>

definition ExpFactory_eq ::
  "(in_record \<Rightarrow> in_record \<Rightarrow> bool) \<Rightarrow> exp_factory \<Rightarrow> exp_factory \<Rightarrow> error + bool" where
  "ExpFactory_eq are_close_dict self other =
     (if (truthy_float (exp_factory.asymptote self) \<and> exp_factory.asymptote other = None)
         \<or> (exp_factory.asymptote self = None \<and> truthy_float (exp_factory.asymptote other))
      then Inr False
      else if exp_factory.asymptote self = None \<and> exp_factory.asymptote other = None
      then and_then (BatchedFactory_eq are_close_dict self other)
                    (Inr (exp_factory.avoid_log self = exp_factory.avoid_log other))
      else and_then (BatchedFactory_eq are_close_dict self other)
             (and_then (np_isclose_opt (exp_factory.asymptote self) (exp_factory.asymptote other))
                       (Inr (exp_factory.avoid_log self = exp_factory.avoid_log other))))"

definition PolyExpFactory_eq ::
  "(in_record \<Rightarrow> in_record \<Rightarrow> bool) \<Rightarrow> polyexp_factory \<Rightarrow> polyexp_factory \<Rightarrow> error + bool" where
  "PolyExpFactory_eq are_close_dict self other =
     and_then (BatchedFactory_eq are_close_dict self other)
       (and_then (Inr True)
       (and_then (np_isclose_opt (polyexp_factory.asymptote self) (polyexp_factory.asymptote other))
       (and_then (Inr (polyexp_factory.avoid_log self = polyexp_factory.avoid_log other))
                 (Inr (polyexp_factory.order self = polyexp_factory.order other)))))"

definition PolyExpFactory_reduce ::
  "backend \<Rightarrow> polyexp_factory \<Rightarrow> error + real \<times> polyexp_factory" where
  "PolyExpFactory_reduce be self =
     bindE (PolyExpFactory_extrapolate be (get_scale_factors self) (get_expectation_values self)
              (polyexp_factory.order self) (polyexp_factory.asymptote self)
              (polyexp_factory.avoid_log self) (1 / 10 ^ 6) True)
       (\<lambda>r. store_fit r self)"

subsection \<open>AdaExpFactory\<close>

text \<open>An entry of the optimization history: the input records, the expectation values,
  the fitted parameters and the zero-noise limit at the time of a \<^verbatim>\<open>reduce\<close>. The
  source stores the two stacks by reference, so that a later \<^verbatim>\<open>push\<close> also grows the
  lists seen through an older entry; an entry here is the value at the time of the
  \<^verbatim>\<open>reduce\<close>, and no statement below reads the stacks of an entry.\<close>

type_synonym history_entry = "in_record list \<times> real list \<times> real list \<times> real"

record adaexp_factory = factory +
  steps :: int
  scale_factor :: real
  asymptote :: "real option"
  avoid_log :: bool
  max_scale_factor :: real
  history :: "history_entry list"

definition SHIFT_FACTOR :: real where
  "SHIFT_FACTOR = 127846 / 100000"

definition EPSILON :: real where
  "EPSILON = 1 / 10 ^ 9"

definition AdaExpFactory_init ::
  "int \<Rightarrow> real \<Rightarrow> real option \<Rightarrow> bool \<Rightarrow> real \<Rightarrow> error + adaexp_factory" where
  "AdaExpFactory_init stps sf asy alog max_sf =
     (if sf \<le> 1
      then Inl (ValueError ''The argument scale_factor must be strictly larger than one.'')
      else if stps < 3 + (if asy = None then 1 else 0)
      then Inl (ValueError ''The argument steps must be an integer greater or equal to 3.'')
      else if max_sf \<le> 1
      then Inl (ValueError ''The argument max_scale_factor must be strictly larger than one.'')
      else Inr (factory.extend Factory_init
                  \<lparr> steps = stps, scale_factor = sf, asymptote = asy, avoid_log = alog,
                    max_scale_factor = max_sf, history = [] \<rparr>))"

definition AdaExpFactory_extrapolate ::
  "backend \<Rightarrow> real list \<Rightarrow> real list \<Rightarrow> real option \<Rightarrow> bool \<Rightarrow> real \<Rightarrow> bool \<Rightarrow> extrap_result" where
  "AdaExpFactory_extrapolate be sfs exp_values asy alog eps full_output =
     ExpFactory_extrapolate be sfs exp_values asy alog eps full_output"

definition AdaExpFactory_reduce ::
  "backend \<Rightarrow> adaexp_factory \<Rightarrow> error + real \<times> adaexp_factory" where
  "AdaExpFactory_reduce be self =
     bindE (AdaExpFactory_extrapolate be (get_scale_factors self) (get_expectation_values self)
              (adaexp_factory.asymptote self) (adaexp_factory.avoid_log self) (1 / 10 ^ 6) True)
       (\<lambda>r. bindE (store_fit r self) (\<lambda>(limit, self1).
          Inr (limit,
               self1\<lparr> history := history self1 @
                  [(instack self1, elems (outstack self1), items (opt_params self1), limit)] \<rparr>)))"

text \<open>\<^verbatim>\<open>next\<close>, in two parts. \<open>adaptive_rule\<close> is the part after the forced
  points: the probe fit runs with ExtrapolationWarning ignored, and the flag
  \<^verbatim>\<open>_already_reduced\<close> is put back to false. The exponent is a numpy float, so a zero
  denominator gives infinity (with a RuntimeWarning) and the minimum is then
  \<^verbatim>\<open>max_scale_factor\<close>.\<close>

definition adaptive_rule ::
  "backend \<Rightarrow> adaexp_factory \<Rightarrow> error + in_record \<times> adaexp_factory" where
  "adaptive_rule be self =
     bindE (AdaExpFactory_reduce be self) (\<lambda>(_, self1).
     let self2 = self1\<lparr> already_reduced := False,
                         warned := warned self @
                           filter (\<lambda>w. w \<noteq> ExtrapolationWarning)
                                  (drop (length (warned self)) (warned self1)) \<rparr>
     in bindE (py_nth (history self2) (- 1)) (\<lambda>(_, _, params, _).
        bindE (py_nth params 2) (\<lambda>exponent.
        if exponent + EPSILON = 0
        then Inr (\<lparr> in_record.scale_factor = max_scale_factor self2, others = Map.empty \<rparr>,
                  self2\<lparr> warned := warned self2 @ [RuntimeWarning] \<rparr>)
        else
          (let next_scale_factor =
                 min (1 + SHIFT_FACTOR / \<bar>exponent + EPSILON\<bar>) (max_scale_factor self2)
           in Inr (\<lparr> in_record.scale_factor = next_scale_factor, others = Map.empty \<rparr>,
                   self2)))))"

definition AdaExpFactory_next ::
  "backend \<Rightarrow> adaexp_factory \<Rightarrow> error + in_record \<times> adaexp_factory" where
  "AdaExpFactory_next be self =
     (if length (instack self) = 0
      then Inr (\<lparr> in_record.scale_factor = 1, others = Map.empty \<rparr>, self)
      else if length (instack self) = 1
      then Inr (\<lparr> in_record.scale_factor = adaexp_factory.scale_factor self,
                   others = Map.empty \<rparr>, self)
      else if length (instack self) = 2 \<and> adaexp_factory.asymptote self = None
      then Inr (\<lparr> in_record.scale_factor = 2 * adaexp_factory.scale_factor self,
                   others = Map.empty \<rparr>, self)
      else adaptive_rule be self)"

definition AdaExpFactory_is_converged :: "adaexp_factory \<Rightarrow> error + bool" where
  "AdaExpFactory_is_converged self =
     (if length (elems (outstack self)) \<noteq> length (instack self) then Inl IndexError
      else Inr (int (length (elems (outstack self))) = steps self))"

definition AdaExpFactory_run_classical ::
  "backend \<Rightarrow> adaexp_factory \<Rightarrow> (real \<Rightarrow> kwargs \<Rightarrow> real) \<Rightarrow> int \<Rightarrow> error + adaexp_factory" where
  "AdaExpFactory_run_classical be self f max_iterations =
     AdaptiveFactory_run_classical AdaExpFactory_is_converged (AdaExpFactory_next be)
       self f max_iterations"

definition AdaExpFactory_run ::
  "backend \<Rightarrow> adaexp_factory \<Rightarrow> 'c \<Rightarrow> ('c \<Rightarrow> kwargs \<Rightarrow> real) \<Rightarrow> ('c \<Rightarrow> real \<Rightarrow> 'c) \<Rightarrow> int \<Rightarrow> int
     \<Rightarrow> error + adaexp_factory" where
  "AdaExpFactory_run be self qp executor scale_noise num_to_average max_iterations =
     AdaptiveFactory_run AdaExpFactory_is_converged (AdaExpFactory_next be)
       self qp executor scale_noise num_to_average max_iterations"

text \<open>\<^verbatim>\<open>AdaExpFactory.__eq__\<close> for another AdaExpFactory. \<open>allclose_history\<close> stands for
  \<^verbatim>\<open>numpy.allclose\<close> on the two histories, the last conjunct of the source.\<close>

definition AdaExpFactory_eq ::
  "(in_record \<Rightarrow> in_record \<Rightarrow> bool) \<Rightarrow> (history_entry list \<Rightarrow> history_entry list \<Rightarrow> error + bool)
     \<Rightarrow> adaexp_factory \<Rightarrow> adaexp_factory \<Rightarrow> error + bool" where
  "AdaExpFactory_eq are_close_dict allclose_history self other =
     and_then (Factory_eq are_close_dict self other)
       (and_then (Inr True)
       (and_then (Inr (steps self = steps other))
       (and_then (Inr (adaexp_factory.scale_factor self = adaexp_factory.scale_factor other))
       (and_then (np_isclose_opt (adaexp_factory.asymptote self) (adaexp_factory.asymptote other))
       (and_then (Inr (adaexp_factory.avoid_log self = adaexp_factory.avoid_log other))
                 (allclose_history (history self) (history other)))))))"

subsection \<open>A sample backend: straight-line fits\<close>

text \<open>
  The worked examples below need one concrete backend. \<open>line_backend\<close> computes what
  \<^verbatim>\<open>numpy.polyfit\<close> computes for degree 1: the weighted least-squares line (numpy
  multiplies the residuals by the weights) and, with \<^verbatim>\<open>cov=True\<close>, the scaled covariance
  \<open>(A\<^sup>T A)\<^sup>-\<^sup>1 \<cdot> resid / (n - 2)\<close>, for which numpy raises ValueError unless there are more
  than two points. Outside this domain (another degree, lists of different lengths, all
  abscissae equal) and for the nonlinear fit it reports RuntimeError; the examples stay
  inside the domain.
\<close>

definition dot :: "real list \<Rightarrow> real list \<Rightarrow> real" where
  "dot xs ys = sum_list (map (\<lambda>(x, y). x * y) (zip xs ys))"

definition line_fit :: "real list \<Rightarrow> real list \<Rightarrow> real list \<Rightarrow> (real \<times> real \<times> matrix) option" where
  "line_fit xs ys w =
     (let w2 = map (\<lambda>v. v * v) w;
          s = sum_list w2;
          sx = dot w2 xs;
          sxx = dot w2 (map (\<lambda>x. x * x) xs);
          sy = dot w2 ys;
          sxy = dot w2 (map (\<lambda>(x, y). x * y) (zip xs ys));
          det = s * sxx - sx * sx
      in if det = 0 then None
         else (let slope = (s * sxy - sx * sy) / det;
                   icpt = (sxx * sy - sx * sxy) / det;
                   resid = dot w2 (map (\<lambda>(x, y). (y - slope * x - icpt) * (y - slope * x - icpt))
                                       (zip xs ys));
                   fac = resid / (real (length xs) - 2)
               in Some (slope, icpt,
                        [[s / det * fac, - sx / det * fac], [- sx / det * fac, sxx / det * fac]])))"

definition in_line_domain :: "real list \<Rightarrow> real list \<Rightarrow> int \<Rightarrow> real list option \<Rightarrow> bool" where
  "in_line_domain xs ys deg w =
     (deg = 1 \<and> length xs = length ys \<and> (case w of None \<Rightarrow> True | Some v \<Rightarrow> length v = length xs))"

definition weights_or_ones :: "real list \<Rightarrow> real list option \<Rightarrow> real list" where
  "weights_or_ones xs w = (case w of None \<Rightarrow> map (\<lambda>_. 1) xs | Some v \<Rightarrow> v)"

definition line_backend :: backend where
  "line_backend =
     \<lparr> np_polyfit_cov = (\<lambda>xs ys deg w.
          if \<not> in_line_domain xs ys deg w then (Inl RuntimeError, [])
          else if length xs \<le> 2
            then (Inl (ValueError ''the number of data points must exceed order to scale the covariance matrix''), [])
          else (case line_fit xs ys (weights_or_ones xs w) of
                  None \<Rightarrow> (Inl RuntimeError, [])
                | Some (slope, icpt, cov) \<Rightarrow> (Inr ([slope, icpt], cov), []))),
       np_polyfit = (\<lambda>xs ys deg w.
          if \<not> in_line_domain xs ys deg w then Inl RuntimeError
          else (case line_fit xs ys (weights_or_ones xs w) of
                  None \<Rightarrow> Inl RuntimeError
                | Some (slope, icpt, cov) \<Rightarrow> Inr ([slope, icpt], []))),
       curve_fit = (\<lambda>ansatz xs ys p0. Inl RuntimeError) \<rparr>"

subsection \<open>Sequences of operations on a factory\<close>

text \<open>The operations a caller applies to a batched factory, and their effect in
  order; the first exception ends the sequence.\<close>

datatype 'c batched_op =
    Push in_record real
  | Run 'c "'c executor" "'c \<Rightarrow> real \<Rightarrow> 'c" int
  | RunClassical "real \<Rightarrow> kwargs \<Rightarrow> real"

fun batched_step ::
  "'a batched_factory_scheme \<Rightarrow> 'c batched_op \<Rightarrow> error + 'a batched_factory_scheme" where
  "batched_step self (Push instack_val outstack_val) = push self instack_val outstack_val"
| "batched_step self (Run qp executor scale_noise num_to_average) =
     BatchedFactory_run self qp executor scale_noise num_to_average"
| "batched_step self (RunClassical f) = Inr (BatchedFactory_run_classical self f)"

fun batched_steps ::
  "'a batched_factory_scheme \<Rightarrow> 'c batched_op list \<Rightarrow> error + 'a batched_factory_scheme" where
  "batched_steps self [] = Inr self"
| "batched_steps self (op # ops) =
     (case batched_step self op of Inl e \<Rightarrow> Inl e | Inr self1 \<Rightarrow> batched_steps self1 ops)"

text \<open>The contract of a batched executor: one expectation value for each circuit.\<close>

fun one_value_per_circuit :: "'c executor \<Rightarrow> bool" where
  "one_value_per_circuit (Single ex) = True"
| "one_value_per_circuit (Batched ex) = (\<forall>circuits kw. length (ex circuits kw) = length circuits)"

fun op_executor_ok :: "'c batched_op \<Rightarrow> bool" where
  "op_executor_ok (Run qp executor scale_noise num_to_average) = one_value_per_circuit executor"
| "op_executor_ok _ = True"

text \<open>The same for the adaptive exponential factory.\<close>

datatype 'c adaptive_op =
    APush in_record real
  | ARun 'c "'c \<Rightarrow> kwargs \<Rightarrow> real" "'c \<Rightarrow> real \<Rightarrow> 'c" int int
  | ARunClassical "real \<Rightarrow> kwargs \<Rightarrow> real" int

fun adaexp_step ::
  "backend \<Rightarrow> adaexp_factory \<Rightarrow> 'c adaptive_op \<Rightarrow> error + adaexp_factory" where
  "adaexp_step be self (APush instack_val outstack_val) = push self instack_val outstack_val"
| "adaexp_step be self (ARun qp executor scale_noise num_to_average max_iterations) =
     AdaExpFactory_run be self qp executor scale_noise num_to_average max_iterations"
| "adaexp_step be self (ARunClassical f max_iterations) =
     AdaExpFactory_run_classical be self f max_iterations"

fun adaexp_steps ::
  "backend \<Rightarrow> adaexp_factory \<Rightarrow> 'c adaptive_op list \<Rightarrow> error + adaexp_factory" where
  "adaexp_steps be self [] = Inr self"
| "adaexp_steps be self (op # ops) =
     (case adaexp_step be self op of Inl e \<Rightarrow> Inl e | Inr self1 \<Rightarrow> adaexp_steps be self1 ops)"

subsection \<open>Sample factories for the worked examples\<close>

text \<open>\<^verbatim>\<open>AdaExpFactory(steps=5, scale_factor=2.0, asymptote=0.0)\<close> after the three pushes
  \<^verbatim>\<open>push({"scale_factor": 1.0}, 2.0)\<close>, \<^verbatim>\<open>push({"scale_factor": 2.0}, 1.0)\<close>,
  \<^verbatim>\<open>push({"scale_factor": 3.0}, 1.0)\<close>.\<close>

definition ada_three_points :: adaexp_factory where
  "ada_three_points =
     (factory.extend Factory_init
        \<lparr> steps = 5, scale_factor = 2, asymptote = Some 0, avoid_log = False,
          max_scale_factor = 6, history = [] \<rparr>)
     \<lparr> instack := [\<lparr> in_record.scale_factor = 1, others = Map.empty \<rparr>,
                   \<lparr> in_record.scale_factor = 2, others = Map.empty \<rparr>,
                   \<lparr> in_record.scale_factor = 3, others = Map.empty \<rparr>],
       outstack := PyList [2, 1, 1] \<rparr>"

text \<open>\<^verbatim>\<open>AdaExpFactory(steps=3, scale_factor=2.0, asymptote=0.0)\<close>, just constructed.\<close>

definition ada_three_steps :: adaexp_factory where
  "ada_three_steps =
     factory.extend Factory_init
       \<lparr> steps = 3, scale_factor = 2, asymptote = Some 0, avoid_log = False,
         max_scale_factor = 6, history = [] \<rparr>"

section \<open>Proofs\<close>

subsection \<open>Basic facts\<close>

declare run_classical_loop.simps [simp del]

lemma bindE_Inl [simp]: "bindE (Inl e) f = Inl e"
  by (simp add: bindE_def)

lemma bindE_Inr [simp]: "bindE (Inr x) f = f x"
  by (simp add: bindE_def)

lemma bindE_eq_Inr: "bindE m f = Inr y \<longleftrightarrow> (\<exists>x. m = Inr x \<and> f x = Inr y)"
  by (cases m) simp_all

lemma push_lengths:
  "push self r v = Inr self' \<Longrightarrow>
   length (instack self') = Suc (length (instack self)) \<and>
   length (elems (outstack self')) = Suc (length (elems (outstack self)))"
  by (auto simp: push_def Let_def split: pyseq.splits)

lemma length_get_keyword_args:
  "length (get_keyword_args self k) = length (instack self) * nat k"
  by (simp add: get_keyword_args_def length_concat comp_def sum_list_triv)

lemma length_generate_circuits:
  "length (generate_circuits self c sn k) = length (instack self) * nat k"
  by (simp add: generate_circuits_def get_scale_factors_def length_concat comp_def sum_list_triv)

lemma length_populate:
  "length (instack (batch_populate_instack self)) \<le> length (scale_factors self)"
  by (simp add: batch_populate_instack_def)

lemma scale_factors_populate [simp]:
  "scale_factors (batch_populate_instack self) = scale_factors self"
  by (simp add: batch_populate_instack_def)

lemma reshape_rows_length:
  "reshape_rows res k = Inr rows \<Longrightarrow> 0 < k \<and> length rows = length res div nat k"
  by (auto simp: reshape_rows_def split: if_splits)

lemma run_classical_lengths:
  "length (instack (BatchedFactory_run_classical self f)) =
   length (elems (outstack (BatchedFactory_run_classical self f)))"
  using length_populate [of "reset self"]
  by (simp add: BatchedFactory_run_classical_def Let_def length_get_keyword_args)

lemma run_lengths:
  assumes "BatchedFactory_run self qp ex sn k = Inr self'" and "one_value_per_circuit ex"
  shows "length (instack self') = length (elems (outstack self'))"
  using assms
  by (cases ex)
     (auto simp: BatchedFactory_run_def Let_def length_get_keyword_args length_generate_circuits
           split: sum.splits if_splits dest!: reshape_rows_length)


lemma batched_step_inv:
  "length (instack self) = length (elems (outstack self)) \<Longrightarrow> op_executor_ok op \<Longrightarrow>
   batched_step self op = Inr self' \<Longrightarrow> length (instack self') = length (elems (outstack self'))"
proof (cases op)
  case (Push r v)
  assume "length (instack self) = length (elems (outstack self))" "batched_step self op = Inr self'"
  with Push show ?thesis using push_lengths [of self r v self'] by simp
next
  case (Run qp ex sn k)
  assume "op_executor_ok op" "batched_step self op = Inr self'"
  with Run show ?thesis using run_lengths [of self qp ex sn k self'] by simp
next
  case (RunClassical f)
  assume "batched_step self op = Inr self'"
  with RunClassical show ?thesis using run_classical_lengths [of self f] by auto
qed

lemma batched_steps_inv:
  "length (instack self) = length (elems (outstack self)) \<Longrightarrow> list_all op_executor_ok ops \<Longrightarrow>
   batched_steps self ops = Inr self' \<Longrightarrow> length (instack self') = length (elems (outstack self'))"
proof (induction ops arbitrary: self)
  case Nil
  then show ?case by simp
next
  case (Cons op ops)
  from Cons.prems(3) obtain s1 where s1: "batched_step self op = Inr s1" "batched_steps s1 ops = Inr self'"
    by (auto split: sum.splits)
  from Cons.prems(1,2) s1(1) have "length (instack s1) = length (elems (outstack s1))"
    using batched_step_inv [of self op s1] by simp
  with Cons.IH [of s1] Cons.prems(2) s1(2) show ?case by simp
qed

lemma store_fit_stacks:
  "store_fit r s = Inr (l, s') \<Longrightarrow> instack s' = instack s \<and> outstack s' = outstack s"
  by (cases r) (auto simp: store_fit_def split: extrap_out.splits)

lemma AdaExp_reduce_stacks:
  "AdaExpFactory_reduce be s = Inr (l, s') \<Longrightarrow> instack s' = instack s \<and> outstack s' = outstack s"
  by (auto simp: AdaExpFactory_reduce_def bindE_eq_Inr dest!: store_fit_stacks)

lemma adaptive_rule_reduce:
  assumes h: "adaptive_rule be s = Inr (r, s')"
  shows "\<exists>l s1. AdaExpFactory_reduce be s = Inr (l, s1) \<and> instack s' = instack s1 \<and> outstack s' = outstack s1"
proof (cases "AdaExpFactory_reduce be s")
  case (Inl e)
  with h show ?thesis by (simp add: adaptive_rule_def)
next
  case (Inr p)
  obtain l s1 where p: "p = (l, s1)" by (cases p)
  let ?s2 = "s1\<lparr> already_reduced := False,
                         warned := warned s @
                           filter (\<lambda>w. w \<noteq> ExtrapolationWarning)
                                  (drop (length (warned s)) (warned s1)) \<rparr>"
  show ?thesis
  proof (cases "py_nth (history ?s2) (- 1)")
    case (Inl e)
    with h Inr p show ?thesis by (simp add: adaptive_rule_def Let_def)
  next
    case hist: (Inr entry)
    obtain i1 o1 params l1 where entry: "entry = (i1, o1, params, l1)" by (cases entry)
    show ?thesis
    proof (cases "py_nth params 2")
      case (Inl e)
      with h Inr p hist entry show ?thesis by (simp add: adaptive_rule_def Let_def)
    next
      case ex: (Inr exponent)
      with h Inr p hist entry show ?thesis
        by (simp add: adaptive_rule_def Let_def split: if_splits) auto
    qed
  qed
qed


lemma adaptive_rule_stacks:
  "adaptive_rule be s = Inr (r, s') \<Longrightarrow> instack s' = instack s \<and> outstack s' = outstack s"
  using adaptive_rule_reduce [of be s r s'] AdaExp_reduce_stacks [of be s] by auto

lemma AdaExp_next_stacks:
  "AdaExpFactory_next be s = Inr (r, s') \<Longrightarrow> instack s' = instack s \<and> outstack s' = outstack s"
  unfolding AdaExpFactory_next_def
  by (auto split: if_splits dest: adaptive_rule_stacks)

lemma loop_inv:
  "(\<forall>s r s'. nxt s = Inr (r, s') \<longrightarrow> instack s' = instack s \<and> outstack s' = outstack s) \<Longrightarrow>
   length (instack s) = length (elems (outstack s)) \<Longrightarrow>
   run_classical_loop conv nxt f m c s = Inr (c', s') \<Longrightarrow>
   length (instack s') = length (elems (outstack s'))"
proof (induction conv nxt f m c s rule: run_classical_loop.induct)
  case (1 conv nxt f m c s)
  note unfold = run_classical_loop.simps [of conv nxt f m c s]
  show ?case
  proof (cases "conv s")
    case (Inl e)
    with "1.prems"(3) show ?thesis by (simp add: unfold)
  next
    case (Inr b)
    show ?thesis
    proof (cases "\<not> b \<and> c < m")
      case False
      with Inr "1.prems"(2,3) show ?thesis by (auto simp: unfold)
    next
      case True
      with Inr "1.prems"(3) obtain r s1 s2 where
        step: "nxt s = Inr (r, s1)"
          "push s1 r (f (in_record.scale_factor r) (others r)) = Inr s2"
          "run_classical_loop conv nxt f m (c + 1) s2 = Inr (c', s')"
        by (auto simp: unfold split: sum.splits)
      from "1.prems"(1,2) step(1) have "length (instack s1) = length (elems (outstack s1))"
        by simp
      with push_lengths [OF step(2)] have "length (instack s2) = length (elems (outstack s2))"
        by simp
      with "1.IH" [OF Inr True step(1) refl step(2) "1.prems"(1)] step(3) show ?thesis by simp
    qed
  qed
qed

lemma reset_lengths [simp]: "length (instack (reset s)) = length (elems (outstack (reset s)))"
  by (simp add: reset_def)

lemma adaptive_run_classical_lengths:
  assumes nxt: "\<forall>s r s'. nxt s = Inr (r, s') \<longrightarrow> instack s' = instack s \<and> outstack s' = outstack s"
    and run: "AdaptiveFactory_run_classical conv nxt s f m = Inr s'"
  shows "length (instack s') = length (elems (outstack s'))"
proof -
  from run obtain c s1 where
    loop: "run_classical_loop conv nxt f m 0 (reset s) = Inr (c, s1)"
    and s': "s' = s1 \<or> s' = s1\<lparr> warned := warned s1 @ [ConvergenceWarning] \<rparr>"
    by (auto simp: AdaptiveFactory_run_classical_def split: sum.splits if_splits)
  from loop_inv [of nxt "reset s" conv f m 0 c s1] nxt loop
  have "length (instack s1) = length (elems (outstack s1))" by simp
  with s' show ?thesis by auto
qed

lemma adaexp_step_inv:
  "length (instack self) = length (elems (outstack self)) \<Longrightarrow>
   adaexp_step be self op = Inr self' \<Longrightarrow> length (instack self') = length (elems (outstack self'))"
proof (cases op)
  case (APush r v)
  assume "length (instack self) = length (elems (outstack self))" "adaexp_step be self op = Inr self'"
  with APush show ?thesis using push_lengths [of self r v self'] by simp
next
  case (ARun qp ex sn k m)
  assume "adaexp_step be self op = Inr self'"
  with ARun show ?thesis
    using adaptive_run_classical_lengths [of "AdaExpFactory_next be" AdaExpFactory_is_converged self _ m self']
      AdaExp_next_stacks [of be]
    by (simp add: AdaExpFactory_run_def AdaptiveFactory_run_def)
next
  case (ARunClassical f m)
  assume "adaexp_step be self op = Inr self'"
  with ARunClassical show ?thesis
    using adaptive_run_classical_lengths [of "AdaExpFactory_next be" AdaExpFactory_is_converged self f m self']
      AdaExp_next_stacks [of be]
    by (simp add: AdaExpFactory_run_classical_def)
qed

lemma adaexp_steps_inv:
  "length (instack self) = length (elems (outstack self)) \<Longrightarrow>
   adaexp_steps be self ops = Inr self' \<Longrightarrow> length (instack self') = length (elems (outstack self'))"
proof (induction ops arbitrary: self)
  case Nil
  then show ?case by simp
next
  case (Cons op ops)
  from Cons.prems(2) obtain s1 where s1: "adaexp_step be self op = Inr s1" "adaexp_steps be s1 ops = Inr self'"
    by (auto split: sum.splits)
  from Cons.prems(1) s1(1) have "length (instack s1) = length (elems (outstack s1))"
    using adaexp_step_inv [of self be op s1] by simp
  with Cons.IH [of s1] s1(2) show ?case by simp
qed



subsection \<open>The two stacks have the same length\<close>

text \<open>Every constructor leaves both stacks empty.\<close>

lemma BatchedFactory_init_fresh:
  "BatchedFactory_init sfs shots = Inr b \<Longrightarrow> instack b = [] \<and> outstack b = PyList []"
  by (auto simp: BatchedFactory_init_def Factory_init_def factory.defs batched_factory.defs
           split: if_splits)

lemma constructed_stacks_empty:
  "(BatchedFactory_init sfs shots = Inr b \<longrightarrow> instack b = [] \<and> outstack b = PyList []) \<and>
   (PolyFactory_init sfs ord shots = Inr p \<longrightarrow> instack p = [] \<and> outstack p = PyList []) \<and>
   (ExpFactory_init sfs asy alog shots = Inr x \<longrightarrow> instack x = [] \<and> outstack x = PyList []) \<and>
   (PolyExpFactory_init sfs ord asy alog shots = Inr q \<longrightarrow>
      instack q = [] \<and> outstack q = PyList []) \<and>
   (AdaExpFactory_init stps sf asy alog max_sf = Inr a \<longrightarrow>
      instack a = [] \<and> outstack a = PyList [])"
  by (auto simp: PolyFactory_init_def ExpFactory_init_def PolyExpFactory_init_def
        AdaExpFactory_init_def bindE_eq_Inr Factory_init_def factory.defs batched_factory.defs
        poly_factory.defs exp_factory.defs polyexp_factory.defs adaexp_factory.defs
        split: if_splits dest!: BatchedFactory_init_fresh)

text \<open>
  Claim C1, amended. For every factory and every successful sequence of \<^verbatim>\<open>run\<close>,
  \<^verbatim>\<open>run_classical\<close> and \<^verbatim>\<open>push\<close> operations in which every batched executor
  returns exactly one expectation value for each circuit it is given,
  \<^verbatim>\<open>len(get_scale_factors()) == len(get_expectation_values())\<close> holds after the
  sequence. The first part is about every factory derived from BatchedFactory, the second
  about the adaptive exponential factory, for every backend. The sequence starts from a
  factory whose stacks have the same length, as they have after construction
  (\<open>constructed_stacks_empty\<close>).
\<close>

theorem stacks_stay_equal:
  "(length (get_scale_factors b) = length (get_expectation_values b) \<longrightarrow>
    list_all op_executor_ok ops \<longrightarrow>
    batched_steps b ops = Inr b' \<longrightarrow>
    length (get_scale_factors b') = length (get_expectation_values b'))
   \<and>
   (length (get_scale_factors a) = length (get_expectation_values a) \<longrightarrow>
    adaexp_steps be a aops = Inr a' \<longrightarrow>
    length (get_scale_factors a') = length (get_expectation_values a'))"
  using batched_steps_inv [of b ops b'] adaexp_steps_inv [of a be aops a']
  by (simp add: get_scale_factors_def get_expectation_values_def)

text \<open>The claim as stated fails when a batched executor returns more values than it was
  given circuits: the run succeeds, and the output stack is longer than the input
  stack.\<close>

theorem stacks_stay_equal_counterexample:
  "\<exists>b b'. BatchedFactory_init [1, 2] None = Inr b \<and>
      batched_steps b
        [Run () (Batched (\<lambda>cs kw. map (\<lambda>c. 1) (cs @ cs))) (\<lambda>c s. c) 1] = Inr b' \<and>
      length (get_scale_factors b') = 2 \<and> length (get_expectation_values b') = 4"
  by (simp add: BatchedFactory_init_def BatchedFactory_run_def Let_def reset_def
        batch_populate_instack_def get_keyword_args_def generate_circuits_def
        get_scale_factors_def get_expectation_values_def reshape_rows_def Factory_init_def
        factory.defs batched_factory.defs)

theorem stacks_stay_equal_witness:
  "(\<exists>b b'. BatchedFactory_init [1, 2] None = Inr b \<and>
      batched_steps b
        [RunClassical (\<lambda>s kw. 2 * s),
         Push \<lparr> in_record.scale_factor = 3, others = Map.empty \<rparr> 6,
         Run () (Batched (\<lambda>cs kw. map (\<lambda>c. 1) cs)) (\<lambda>c s. c) 2] = Inr b' \<and>
      length (get_scale_factors b') = length (get_expectation_values b'))
   \<and>
   (\<exists>a a'. AdaExpFactory_init 3 2 (Some 0) False 6 = Inr a \<and>
      adaexp_steps line_backend a
        [ARunClassical (\<lambda>s kw. 1) 2,
         APush \<lparr> in_record.scale_factor = 3, others = Map.empty \<rparr> 1 :: unit adaptive_op] = Inr a' \<and>
      length (get_scale_factors a') = length (get_expectation_values a'))"
proof -
  let ?ops = "[RunClassical (\<lambda>s kw. 2 * s),
         Push \<lparr> in_record.scale_factor = 3, others = Map.empty \<rparr> 6,
         Run () (Batched (\<lambda>cs kw. map (\<lambda>c. 1) cs)) (\<lambda>c s. c) 2]"
  let ?aops = "[ARunClassical (\<lambda>s kw. 1) 2,
         APush \<lparr> in_record.scale_factor = 3, others = Map.empty \<rparr> 1 :: unit adaptive_op]"
  define b where "b = factory.extend Factory_init \<lparr> scale_factors = [1, 2], shot_list = None \<rparr>"
  have init_b: "BatchedFactory_init [1, 2] None = Inr b"
    by (simp add: BatchedFactory_init_def b_def)
  have fresh_b: "length (get_scale_factors b) = length (get_expectation_values b)"
    by (simp add: b_def get_scale_factors_def get_expectation_values_def Factory_init_def
          factory.defs batched_factory.defs)
  have ok: "list_all op_executor_ok ?ops"
    by simp
  obtain b' where steps_b: "batched_steps b ?ops = Inr b'"
    by (simp add: b_def BatchedFactory_run_classical_def BatchedFactory_run_def Let_def reset_def
          batch_populate_instack_def get_keyword_args_def generate_circuits_def
          get_scale_factors_def push_def reshape_rows_def Factory_init_def factory.defs
          batched_factory.defs)
  from stacks_stay_equal [of b ?ops b', THEN conjunct1] fresh_b ok steps_b
  have len_b: "length (get_scale_factors b') = length (get_expectation_values b')"
    by blast
  define a where "a = factory.extend Factory_init
       \<lparr> steps = 3, scale_factor = 2, asymptote = Some 0, avoid_log = False,
         max_scale_factor = 6, history = [] \<rparr>"
  have init_a: "AdaExpFactory_init 3 2 (Some 0) False 6 = Inr a"
    by (simp add: AdaExpFactory_init_def a_def)
  have fresh_a: "length (get_scale_factors a) = length (get_expectation_values a)"
    by (simp add: a_def get_scale_factors_def get_expectation_values_def Factory_init_def
          factory.defs adaexp_factory.defs)
  obtain a' where steps_a: "adaexp_steps line_backend a ?aops = Inr a'"
    by (simp add: a_def AdaExpFactory_run_classical_def AdaptiveFactory_run_classical_def
          run_classical_loop.simps AdaExpFactory_is_converged_def AdaExpFactory_next_def
          reset_def push_def Let_def Factory_init_def factory.defs adaexp_factory.defs)
  from stacks_stay_equal [of _ _ _ a line_backend ?aops a', THEN conjunct2] fresh_a steps_a
  have len_a: "length (get_scale_factors a') = length (get_expectation_values a')"
    by blast
  from init_b steps_b len_b init_a steps_a len_a show ?thesis
    by blast
qed

subsection \<open>Evaluating the sample backend\<close>

lemmas line_eval = line_backend_def in_line_domain_def weights_or_ones_def line_fit_def dot_def
  mitiq_polyfit_def is_ValueError_def relabel_def Let_def py_nth_def

lemma py_nth_last: "py_nth (xs @ [x]) (- 1) = Inr x"
  by (simp add: py_nth_def)

lemma polyval_snoc_zero: "polyval (xs @ [x]) 0 = x"
  by (simp add: polyval_def)

lemma polyval_zero_last:
  assumes "py_nth z (- 1) = Inr v"
  shows "polyval z 0 = v"
proof (cases z rule: rev_cases)
  case Nil
  with assms show ?thesis by (simp add: py_nth_def)
next
  case (snoc xs x)
  with assms show ?thesis by (simp add: py_nth_last polyval_snoc_zero)
qed

lemma exp_2ln2: "exp (2 * ln 2) = (4::real)"
  using exp_of_nat_mult [of 2 "ln (2::real)"] by simp

lemma ln2_ge_half: "1 / 2 \<le> ln (2::real)"
proof -
  have "exp (1 / 2 :: real) \<le> 1 + 1 / 2 + (1 / 2)\<^sup>2"
    by (rule exp_bound) simp_all
  also have "\<dots> \<le> 2" by (simp add: power2_eq_square)
  finally have "exp (1 / 2 :: real) \<le> 2" .
  then have "(1 / 2 :: real) \<le> ln 2" by (subst ln_ge_iff) simp_all
  then show ?thesis .
qed

lemma fit_12_21: "mitiq_polyfit line_backend [1, 2] [2, 1] 1 None = Inr (([- 1, 3], None), [])"
  by (simp add: line_eval)

lemma fit_12_log21:
  "mitiq_polyfit line_backend [1, 2] [ln 2, 0] 1 (Some [sqrt 2, 1])
     = Inr (([- ln 2, 2 * ln 2], None), [])"
  by (simp add: line_eval)

lemma fit_12_35: "mitiq_polyfit line_backend [1, 2] [3, 5] 1 None = Inr (([2, 1], None), [])"
  by (simp add: line_eval)

lemma fit_12_11: "mitiq_polyfit line_backend [1, 2] [1, 1] 1 None = Inr (([0, 1], None), [])"
  by (simp add: line_eval)

lemma fit_12_logeps:
  "mitiq_polyfit line_backend [1, 2] [ln (1 / 10 ^ 6), ln (1 / 10 ^ 6)] 1
     (Some [sqrt \<bar>1 / 10 ^ 6\<bar>, sqrt \<bar>1 / 10 ^ 6\<bar>]) = Inr (([0, ln (1 / 10 ^ 6)], None), [])"
  by (simp add: line_eval)

lemma fit_123_211:
  "\<exists>cov. mitiq_polyfit line_backend [1, 2, 3] [2, 1, 1] 1 None
          = Inr (([- (1 / 2), 7 / 3], Some cov), [])"
  by (simp add: line_eval)

lemma fit_123_log211:
  "\<exists>cov. mitiq_polyfit line_backend [1, 2, 3] [ln 2, 0, 0] 1 (Some [sqrt 2, 1, 1])
          = Inr (([- (6 * ln 2 / 11), 16 * ln 2 / 11], Some cov), [])"
  by (simp add: line_eval)

lemma fit_fake_nodes:
  "mitiq_polyfit line_backend [3 / 4, 9 / 4] [3 / 4, 9 / 4] 1 None = Inr (([1, 0], None), [])"
  by (simp add: line_eval)

lemmas polyexp_eval = PolyExpFactory_extrapolate_def PolyExp_case3_def Let_def py_nth_def

lemma polyexp_12_21_full:
  "\<exists>f. PolyExpFactory_extrapolate line_backend [1, 2] [2, 1] 1 (Some 0) False (1 / 10 ^ 6) True
     = Inr (Full 4 None [0, 2 * ln 2, - ln 2] None f, [])"
  by (simp add: polyexp_eval fit_12_21 fit_12_log21 exp_2ln2)

lemma polyexp_123_211_full:
  "\<exists>l f. PolyExpFactory_extrapolate line_backend [1, 2, 3] [2, 1, 1] 1 (Some 0) False (1 / 10 ^ 6) True
     = Inr (Full l None [0, 16 * ln 2 / 11, - (6 * ln 2 / 11)] None f, [])"
proof -
  from fit_123_211 obtain c3 where c3:
    "mitiq_polyfit line_backend [1, 2, 3] [2, 1, 1] 1 None = Inr (([- (1 / 2), 7 / 3], Some c3), [])"
    by blast
  from fit_123_log211 obtain c4 where c4:
    "mitiq_polyfit line_backend [1, 2, 3] [ln 2, 0, 0] 1 (Some [sqrt 2, 1, 1])
       = Inr (([- (6 * ln 2 / 11), 16 * ln 2 / 11], Some c4), [])"
    by blast
  show ?thesis
    by (simp add: polyexp_eval c3 c4)
qed

lemma polyexp_12_11_full:
  "\<exists>l f. PolyExpFactory_extrapolate line_backend [1, 2] [1, 1] 1 (Some 0) False (1 / 10 ^ 6) True
     = Inr (Full l None [0, ln (1 / 10 ^ 6), 0] None f, [])"
  by (simp add: polyexp_eval fit_12_11 fit_12_logeps [simplified])

subsection \<open>Richardson extrapolation is a polynomial fit of maximal order\<close>

lemma richardson_is_poly:
  "RichardsonFactory_extrapolate be sfs evs full_output =
   PolyFactory_extrapolate be sfs evs (int (length sfs) - 1) full_output"
  by (simp add: RichardsonFactory_extrapolate_def)

text \<open>
  Claim C6. For scale factors and expectation values of equal length \<open>n \<ge> 2\<close>,
  \<^verbatim>\<open>RichardsonFactory.extrapolate\<close> returns exactly what \<^verbatim>\<open>PolyFactory.extrapolate\<close>
  returns with \<^verbatim>\<open>order = n - 1\<close>: the same limit, error, parameters, covariance and
  curve (or the same exception).
\<close>

theorem richardson_equals_poly_max_order:
  assumes "length sfs = n" and "length evs = n" and "2 \<le> n"
  shows "RichardsonFactory_extrapolate be sfs evs full_output =
         PolyFactory_extrapolate be sfs evs (int n - 1) full_output"
  using assms by (simp add: richardson_is_poly)

theorem richardson_equals_poly_max_order_witness:
  "length [1, 2 :: real] = 2 \<and> length [3, 5 :: real] = 2 \<and>
   RichardsonFactory_extrapolate line_backend [1, 2] [3, 5] True =
   PolyFactory_extrapolate line_backend [1, 2] [3, 5] 1 True \<and>
   (\<exists>f. PolyFactory_extrapolate line_backend [1, 2] [3, 5] 1 True
          = Inr (Full 1 None [2, 1] None f, []))"
proof -
  have "RichardsonFactory_extrapolate line_backend [1, 2] [3, 5] True =
        PolyFactory_extrapolate line_backend [1, 2] [3, 5] (int 2 - 1) True"
    by (rule richardson_equals_poly_max_order) simp_all
  moreover have "\<exists>f. PolyFactory_extrapolate line_backend [1, 2] [3, 5] 1 True
          = Inr (Full 1 None [2, 1] None f, [])"
    by (simp add: PolyFactory_extrapolate_def fit_12_35 py_nth_def)
  ultimately show ?thesis by simp
qed

subsection \<open>The logarithmic fit of PolyExpFactory\<close>

lemma case3_full_shape:
  "PolyExp_case3 be sfs evs ord a eps True sign ws0 = Inr (Full l e p c f, ws)
   \<Longrightarrow> e = None \<and> c = None"
  by (auto simp: PolyExp_case3_def Let_def bindE_eq_Inr)

lemma case3_limit_only: "PolyExp_case3 be sfs evs ord a eps False sign ws0 \<noteq> Inr r"
  by (auto simp: PolyExp_case3_def Let_def bindE_eq_Inr)

text \<open>
  Claim C10. Whenever \<^verbatim>\<open>PolyExpFactory.extrapolate\<close> returns for a given asymptote,
  \<^verbatim>\<open>avoid_log=False\<close> and \<^verbatim>\<open>full_output=True\<close>, the component \<^verbatim>\<open>zne_error\<close> of
  the result is \<^verbatim>\<open>None\<close>, whatever covariance the polynomial fit produced (and so is
  the component \<^verbatim>\<open>params_cov\<close>).
\<close>

theorem polyexp_log_fit_error_is_none:
  assumes "PolyExpFactory_extrapolate be sfs evs ord (Some a) False eps True
             = Inr (Full l e p c f, ws)"
  shows "e = None \<and> c = None"
  using assms
  by (auto simp: PolyExpFactory_extrapolate_def Let_def bindE_eq_Inr
           split: if_splits dest: case3_full_shape)

theorem polyexp_log_fit_error_is_none_witness:
  "\<exists>cov l e p c f ws.
     mitiq_polyfit line_backend [1, 2, 3] [ln 2, 0, 0] 1 (Some [sqrt 2, 1, 1])
       = Inr (([- (6 * ln 2 / 11), 16 * ln 2 / 11], Some cov), []) \<and>
     PolyExpFactory_extrapolate line_backend [1, 2, 3] [2, 1, 1] 1 (Some 0) False (1 / 10 ^ 6) True
       = Inr (Full l e p c f, ws) \<and> e = None \<and> c = None"
proof -
  from polyexp_123_211_full obtain l f where h:
    "PolyExpFactory_extrapolate line_backend [1, 2, 3] [2, 1, 1] 1 (Some 0) False (1 / 10 ^ 6) True
       = Inr (Full l None [0, 16 * ln 2 / 11, - (6 * ln 2 / 11)] None f, [])"
    by blast
  from polyexp_log_fit_error_is_none [OF h] h fit_123_log211 show ?thesis
    by blast
qed

text \<open>
  Claim C3. For a given asymptote, \<^verbatim>\<open>avoid_log=False\<close> and \<^verbatim>\<open>full_output=False\<close>,
  \<^verbatim>\<open>PolyExpFactory.extrapolate\<close> never returns a zero-noise limit: whatever the data and
  the backend, the call ends in an exception (at the latest the UnboundLocalError of
  \<^verbatim>\<open>return zne_limit\<close>).
\<close>

theorem polyexp_log_fit_limit_only_raises:
  "PolyExpFactory_extrapolate be sfs evs ord (Some a) False eps False \<noteq> Inr r"
  by (auto simp: PolyExpFactory_extrapolate_def Let_def bindE_eq_Inr case3_limit_only
           split: if_splits)

theorem polyexp_log_fit_limit_only_raises_witness:
  "PolyExpFactory_extrapolate line_backend [1, 2] [2, 1] 1 (Some 0) False (1 / 10 ^ 6) False
     = Inl UnboundLocalError \<and>
   (\<exists>f. PolyExpFactory_extrapolate line_backend [1, 2] [2, 1] 1 (Some 0) False (1 / 10 ^ 6) True
          = Inr (Full 4 None [0, 2 * ln 2, - ln 2] None f, []))"
proof -
  have "PolyExpFactory_extrapolate line_backend [1, 2] [2, 1] 1 (Some 0) False (1 / 10 ^ 6) False
          = Inl UnboundLocalError"
    using polyexp_log_fit_limit_only_raises [of line_backend "[1, 2]" "[2, 1]" 1 0 "1 / 10 ^ 6"]
    by (simp add: polyexp_eval fit_12_21 fit_12_log21)
  with polyexp_12_21_full show ?thesis by blast
qed

subsection \<open>What reset clears\<close>

text \<open>
  Claim C2. After \<^verbatim>\<open>reset()\<close> the accessors \<^verbatim>\<open>get_optimal_parameters\<close>,
  \<^verbatim>\<open>get_parameters_covariance\<close>, \<^verbatim>\<open>get_zero_noise_limit\<close> and
  \<^verbatim>\<open>get_zero_noise_limit_error\<close> raise the "data missing" ValueError, but
  \<^verbatim>\<open>get_extrapolation_curve\<close> answers as it did before the reset: the curve cached by
  a successful \<^verbatim>\<open>reduce()\<close> is still returned.
\<close>

theorem reset_keeps_extrapolation_curve:
  "get_optimal_parameters (reset self) = Inl (ValueError DATA_MISSING_ERR) \<and>
   get_parameters_covariance (reset self) = Inl (ValueError DATA_MISSING_ERR) \<and>
   get_zero_noise_limit (reset self) = Inl (ValueError DATA_MISSING_ERR) \<and>
   get_zero_noise_limit_error (reset self) = Inl (ValueError DATA_MISSING_ERR) \<and>
   get_extrapolation_curve (reset self) = get_extrapolation_curve self"
  by (simp add: reset_def get_optimal_parameters_def get_parameters_covariance_def
        get_zero_noise_limit_def get_zero_noise_limit_error_def get_extrapolation_curve_def)

theorem reset_keeps_extrapolation_curve_witness:
  "\<exists>b l b1 c.
     BatchedFactory_init [1, 2] None = Inr b \<and>
     LinearFactory_reduce line_backend (BatchedFactory_run_classical b (\<lambda>s kw. 2 * s + 1))
       = Inr (l, b1) \<and>
     l = 1 \<and>
     get_zero_noise_limit (reset b1) = Inl (ValueError DATA_MISSING_ERR) \<and>
     get_extrapolation_curve (reset b1) = Inr c \<and> c 0 = Inr 1"
proof -
  define b where "b = factory.extend Factory_init \<lparr> scale_factors = [1, 2], shot_list = None \<rparr>"
  have init: "BatchedFactory_init [1, 2] None = Inr b"
    by (simp add: BatchedFactory_init_def b_def)
  obtain b1 where red:
    "LinearFactory_reduce line_backend (BatchedFactory_run_classical b (\<lambda>s kw. 2 * s + 1))
       = Inr (1, b1)"
    and curve: "zne_curve b1 = Some (\<lambda>sf. Inr (polyval [2, 1] sf))"
    by (simp add: LinearFactory_reduce_def LinearFactory_extrapolate_def PolyFactory_extrapolate_def
          BatchedFactory_run_classical_def batch_populate_instack_def get_keyword_args_def
          reset_def get_scale_factors_def get_expectation_values_def store_fit_def fit_12_35
          py_nth_def Let_def b_def Factory_init_def factory.defs batched_factory.defs)
  from curve have before: "get_extrapolation_curve b1 = Inr (\<lambda>sf. Inr (polyval [2, 1] sf))"
    by (simp add: get_extrapolation_curve_def)
  from reset_keeps_extrapolation_curve [of b1] before
  have after: "get_extrapolation_curve (reset b1) = Inr (\<lambda>sf. Inr (polyval [2, 1] sf))"
    and limit: "get_zero_noise_limit (reset b1) = Inl (ValueError DATA_MISSING_ERR)"
    by simp_all
  have "(\<lambda>sf. Inr (polyval [2, 1] sf) :: error + real) 0 = Inr 1"
    by (simp add: polyval_def)
  with init red after limit show ?thesis by blast
qed

subsection \<open>The curve returned by the fake-nodes extrapolation\<close>

lemma poly_full_curve:
  "PolyFactory_extrapolate be xs ys ord True = Inr (Full l e p c f, ws)
   \<Longrightarrow> f = (\<lambda>x. Inr (polyval p x))"
  by (auto simp: PolyFactory_extrapolate_def bindE_eq_Inr)

lemma repack_full:
  "(case r of (Limit x, w) \<Rightarrow> Inl TypeError
    | (Full l' e' p' c' f', w) \<Rightarrow> Inr (Full l' e' p' c' f', w)) = Inr y \<Longrightarrow> r = y"
  by (cases r) (auto split: extrap_out.splits)

text \<open>
  Claim C5. With \<^verbatim>\<open>full_output=True\<close>, the curve that
  \<^verbatim>\<open>FakeNodesFactory.extrapolate\<close> returns is the polynomial with the returned
  coefficients evaluated at its argument itself: the composition with the map \<open>S\<close> to
  the fake nodes is computed (\<^verbatim>\<open>new_curve\<close>) and not returned.
\<close>

theorem fake_nodes_curve_is_not_remapped:
  assumes "FakeNodesFactory_extrapolate be sfs evs True = Inr (Full l e p c f, ws)"
  shows "f = (\<lambda>x. Inr (polyval p x))"
proof -
  from assms [unfolded FakeNodesFactory_extrapolate_def Let_def] obtain nodes r where
    fit: "RichardsonFactory_extrapolate be nodes evs True = Inr r"
    and pack: "(case r of (Limit x, w) \<Rightarrow> Inl TypeError
                | (Full l' e' p' c' f', w) \<Rightarrow> Inr (Full l' e' p' c' f', w))
               = Inr (Full l e p c f, ws)"
    by (auto simp: bindE_eq_Inr split: if_splits)
  from pack have "r = (Full l e p c f, ws)"
    by (rule repack_full)
  with fit show ?thesis
    by (simp add: richardson_is_poly poly_full_curve)
qed

theorem fake_nodes_curve_is_not_remapped_witness:
  "\<exists>f. FakeNodesFactory_extrapolate line_backend [1, 2] [3 / 4, 9 / 4] True
          = Inr (Full 0 None [1, 0] None f, []) \<and>
        f 6 = Inr 6 \<and>
        map_to_fake_nodes 6 0 (1 + 2) = Inr 0 \<and>
        polyval [1, 0] 0 = 0"
proof -
  have spaced: "is_equally_spaced [1, 2] = Inr True"
    by (simp add: is_equally_spaced_def np_diff_def np_isclose_def)
  obtain f where full:
    "FakeNodesFactory_extrapolate line_backend [1, 2] [3 / 4, 9 / 4] True
       = Inr (Full 0 None [1, 0] None f, [])"
    by (simp add: FakeNodesFactory_extrapolate_def spaced py_min_def py_max_def
          S_map_def cos_60 cos_120' richardson_is_poly PolyFactory_extrapolate_def
          fit_fake_nodes py_nth_def)
  from fake_nodes_curve_is_not_remapped [OF full] have "f 6 = Inr 6"
    by (simp add: polyval_def)
  moreover have "map_to_fake_nodes 6 0 (1 + 2) = Inr 0"
    by (simp add: map_to_fake_nodes_def S_map_def)
  moreover have "polyval [1, 0] 0 = 0"
    by (simp add: polyval_def)
  ultimately show ?thesis using full by blast
qed

subsection \<open>Equality of factories without asymptote\<close>

lemma and_then_simps [simp]:
  "and_then (Inl e) b = Inl e"
  "and_then (Inr True) b = b"
  "and_then (Inr False) b = Inr False"
  by (simp_all add: and_then_def)

lemma np_isclose_opt_None:
  "a = None \<or> b = None \<Longrightarrow> np_isclose_opt a b = Inl TypeError"
  by (auto simp: np_isclose_opt_def split: option.splits)

text \<open>
  Claim C9. For two PolyExpFactory instances, or two AdaExpFactory instances, whose
  other tests all pass and of which one has \<^verbatim>\<open>asymptote=None\<close>, the comparison does not
  return a boolean: \<^verbatim>\<open>np.isclose\<close> is applied to \<^verbatim>\<open>None\<close> and raises TypeError.
\<close>

theorem eq_raises_without_asymptote:
  "(BatchedFactory_eq are_close_dict p p' = Inr True \<longrightarrow>
    (polyexp_factory.asymptote p = None \<or> polyexp_factory.asymptote p' = None) \<longrightarrow>
    PolyExpFactory_eq are_close_dict p p' = Inl TypeError)
   \<and>
   (Factory_eq are_close_dict a a' = Inr True \<longrightarrow>
    steps a = steps a' \<longrightarrow>
    adaexp_factory.scale_factor a = adaexp_factory.scale_factor a' \<longrightarrow>
    (adaexp_factory.asymptote a = None \<or> adaexp_factory.asymptote a' = None) \<longrightarrow>
    AdaExpFactory_eq are_close_dict allclose_history a a' = Inl TypeError)"
  by (simp add: PolyExpFactory_eq_def AdaExpFactory_eq_def np_isclose_opt_None)

theorem eq_raises_without_asymptote_witness:
  "\<exists>p a x.
     PolyExpFactory_init [1, 2] 1 None False None = Inr p \<and>
     PolyExpFactory_eq (\<lambda>d d'. True) p p = Inl TypeError \<and>
     AdaExpFactory_init 4 2 None False 6 = Inr a \<and>
     AdaExpFactory_eq (\<lambda>d d'. True) (\<lambda>h h'. Inr True) a a = Inl TypeError \<and>
     ExpFactory_init [1, 2] None False None = Inr x \<and>
     ExpFactory_eq (\<lambda>d d'. True) x x = Inr True"
proof -
  define b where "b = factory.extend Factory_init \<lparr> scale_factors = [1, 2], shot_list = None \<rparr>"
  define p where "p = batched_factory.extend b
      \<lparr> order = 1, asymptote = None, avoid_log = False \<rparr>"
  define x where "x = batched_factory.extend b
      \<lparr> exp_factory.asymptote = None, exp_factory.avoid_log = False \<rparr>"
  define a where "a = factory.extend Factory_init
      \<lparr> steps = 4, scale_factor = 2, asymptote = None, avoid_log = False,
        max_scale_factor = 6, history = [] \<rparr>"
  have close: "np_isclose 1 1" "np_isclose 2 2"
    by (simp_all add: np_isclose_def)
  have init_p: "PolyExpFactory_init [1, 2] 1 None False None = Inr p"
    by (simp add: PolyExpFactory_init_def BatchedFactory_init_def p_def b_def)
  have init_x: "ExpFactory_init [1, 2] None False None = Inr x"
    by (simp add: ExpFactory_init_def BatchedFactory_init_def x_def b_def)
  have init_a: "AdaExpFactory_init 4 2 None False 6 = Inr a"
    by (simp add: AdaExpFactory_init_def a_def)
  have beq_p: "BatchedFactory_eq (\<lambda>d d'. True) p p = Inr True"
    by (simp add: BatchedFactory_eq_def Factory_eq_def np_allclose_def close p_def b_def
          Factory_init_def factory.defs batched_factory.defs polyexp_factory.defs)
  have none_p: "polyexp_factory.asymptote p = None"
    by (simp add: p_def polyexp_factory.defs batched_factory.defs)
  have feq_a: "Factory_eq (\<lambda>d d'. True) a a = Inr True"
    by (simp add: Factory_eq_def np_allclose_def a_def Factory_init_def factory.defs
          adaexp_factory.defs)
  have none_a: "adaexp_factory.asymptote a = None"
    by (simp add: a_def adaexp_factory.defs factory.defs)
  from eq_raises_without_asymptote [of "\<lambda>d d'. True" p p a a "\<lambda>h h'. Inr True"]
    beq_p none_p feq_a none_a
  have "PolyExpFactory_eq (\<lambda>d d'. True) p p = Inl TypeError"
    and "AdaExpFactory_eq (\<lambda>d d'. True) (\<lambda>h h'. Inr True) a a = Inl TypeError"
    by simp_all
  moreover have "ExpFactory_eq (\<lambda>d d'. True) x x = Inr True"
    by (simp add: ExpFactory_eq_def BatchedFactory_eq_def Factory_eq_def np_allclose_def close
          x_def b_def Factory_init_def factory.defs batched_factory.defs exp_factory.defs)
  ultimately show ?thesis using init_p init_a init_x by blast
qed

subsection \<open>Construction of a batched factory\<close>

text \<open>
  Claim C7, amended. Construction raises ValueError whenever fewer than 2 scale factors
  are given. Otherwise it raises TypeError whenever a non-empty \<^verbatim>\<open>shot_list\<close> holds a
  non-integer, and otherwise IndexError whenever a non-empty \<^verbatim>\<open>shot_list\<close> has not the
  length of \<^verbatim>\<open>scale_factors\<close>. In every other case, also for an empty
  \<^verbatim>\<open>shot_list\<close>, construction succeeds.
\<close>

theorem batched_init_outcome:
  "(length sfs < 2 \<longrightarrow>
      BatchedFactory_init sfs shots = Inl (ValueError ''At least 2 scale factors are necessary.''))
   \<and>
   (2 \<le> length sfs \<longrightarrow> shots = Some l \<longrightarrow> l \<noteq> [] \<longrightarrow>
      \<not> list_all (\<lambda>s. as_int s \<noteq> None) l \<longrightarrow>
      BatchedFactory_init sfs shots = Inl TypeError)
   \<and>
   (2 \<le> length sfs \<longrightarrow> shots = Some l \<longrightarrow> l \<noteq> [] \<longrightarrow>
      list_all (\<lambda>s. as_int s \<noteq> None) l \<longrightarrow> length l \<noteq> length sfs \<longrightarrow>
      BatchedFactory_init sfs shots = Inl IndexError)
   \<and>
   (2 \<le> length sfs \<longrightarrow>
      (shots = None \<or> shots = Some [] \<or>
       (shots = Some l \<and> list_all (\<lambda>s. as_int s \<noteq> None) l \<and> length l = length sfs)) \<longrightarrow>
      (\<exists>f. BatchedFactory_init sfs shots = Inr f \<and> scale_factors f = sfs \<and>
           instack f = [] \<and> outstack f = PyList []))"
  by (auto simp: BatchedFactory_init_def Factory_init_def factory.defs batched_factory.defs)

text \<open>The claim as stated fails for an empty \<^verbatim>\<open>shot_list\<close>: its length differs from
  the length of the scale factors, and construction succeeds.\<close>

theorem batched_init_counterexample:
  "length ([] :: pyval list) \<noteq> length [1, 2 :: real] \<and>
   (\<exists>f. BatchedFactory_init [1, 2] (Some []) = Inr f)"
  by (simp add: BatchedFactory_init_def)

theorem batched_init_outcome_witness:
  "BatchedFactory_init [1] (Some [PyFloat (3 / 2)])
     = Inl (ValueError ''At least 2 scale factors are necessary.'') \<and>
   BatchedFactory_init [1, 2] (Some [PyInt 10, PyFloat (3 / 2)]) = Inl TypeError \<and>
   BatchedFactory_init [1, 2] (Some [PyInt 10]) = Inl IndexError \<and>
   (\<exists>f. BatchedFactory_init [1, 2] (Some [PyInt 10, PyInt 20]) = Inr f \<and>
        scale_factors f = [1, 2] \<and> instack f = [] \<and> outstack f = PyList [])"
proof -
  have "BatchedFactory_init [1] (Some [PyFloat (3 / 2)])
          = Inl (ValueError ''At least 2 scale factors are necessary.'')"
    using batched_init_outcome [of "[1]" "Some [PyFloat (3 / 2)]" "[]"] by simp
  moreover have "BatchedFactory_init [1, 2] (Some [PyInt 10, PyFloat (3 / 2)]) = Inl TypeError"
    using batched_init_outcome
            [of "[1, 2]" "Some [PyInt 10, PyFloat (3 / 2)]" "[PyInt 10, PyFloat (3 / 2)]"]
    by simp
  moreover have "BatchedFactory_init [1, 2] (Some [PyInt 10]) = Inl IndexError"
    using batched_init_outcome [of "[1, 2]" "Some [PyInt 10]" "[PyInt 10]"] by simp
  moreover have "\<exists>f. BatchedFactory_init [1, 2] (Some [PyInt 10, PyInt 20]) = Inr f \<and>
        scale_factors f = [1, 2] \<and> instack f = [] \<and> outstack f = PyList []"
    using batched_init_outcome
            [of "[1, 2]" "Some [PyInt 10, PyInt 20]" "[PyInt 10, PyInt 20]"]
    by simp
  ultimately show ?thesis by blast
qed

subsection \<open>The convergence warning of the adaptive loop\<close>

text \<open>
  Claim C8. \<^verbatim>\<open>AdaptiveFactory.run_classical\<close> returns normally and appends a
  ConvergenceWarning whenever its loop ends with the counter equal to
  \<^verbatim>\<open>max_iterations\<close>, whether or not the factory has converged by then.
\<close>

theorem convergence_warning_at_cap:
  assumes "run_classical_loop is_converged nxt f max_iterations 0 (reset self)
             = Inr (max_iterations, self1)"
  shows "AdaptiveFactory_run_classical is_converged nxt self f max_iterations
           = Inr (self1\<lparr> warned := warned self1 @ [ConvergenceWarning] \<rparr>)"
  using assms by (simp add: AdaptiveFactory_run_classical_def)

theorem convergence_warning_at_cap_witness:
  "\<exists>self1.
     AdaExpFactory_init 3 2 (Some 0) False 6 = Inr ada_three_steps \<and>
     run_classical_loop AdaExpFactory_is_converged (AdaExpFactory_next line_backend)
       (\<lambda>s kw. 1) 3 0 (reset ada_three_steps) = Inr (3, self1) \<and>
     AdaExpFactory_is_converged self1 = Inr True \<and>
     AdaExpFactory_run_classical line_backend ada_three_steps (\<lambda>s kw. 1) 3
       = Inr (self1\<lparr> warned := warned self1 @ [ConvergenceWarning] \<rparr>) \<and>
     AdaExpFactory_is_converged (self1\<lparr> warned := warned self1 @ [ConvergenceWarning] \<rparr>)
       = Inr True"
proof -
  have init: "AdaExpFactory_init 3 2 (Some 0) False 6 = Inr ada_three_steps"
    by (simp add: AdaExpFactory_init_def ada_three_steps_def)
  from polyexp_12_11_full obtain l f where e:
    "PolyExpFactory_extrapolate line_backend [1, 2] [1, 1] 1 (Some 0) False (1 / 10 ^ 6) True
       = Inr (Full l None [0, ln (1 / 10 ^ 6), 0] None f, [])"
    by blast
  obtain self1 where
    loop: "run_classical_loop AdaExpFactory_is_converged (AdaExpFactory_next line_backend)
             (\<lambda>s kw. 1) 3 0 (reset ada_three_steps) = Inr (3, self1)"
    and conv: "AdaExpFactory_is_converged self1 = Inr True"
    by (simp add: run_classical_loop.simps AdaExpFactory_is_converged_def AdaExpFactory_next_def
          adaptive_rule_def AdaExpFactory_reduce_def AdaExpFactory_extrapolate_def
          ExpFactory_extrapolate_def ada_three_steps_def reset_def push_def
          get_scale_factors_def get_expectation_values_def e [simplified] store_fit_def Let_def
          py_nth_def EPSILON_def SHIFT_FACTOR_def Factory_init_def factory.defs
          adaexp_factory.defs)
  from convergence_warning_at_cap [OF loop]
  have run: "AdaExpFactory_run_classical line_backend ada_three_steps (\<lambda>s kw. 1) 3
       = Inr (self1\<lparr> warned := warned self1 @ [ConvergenceWarning] \<rparr>)"
    by (simp add: AdaExpFactory_run_classical_def)
  from conv have "AdaExpFactory_is_converged
       (self1\<lparr> warned := warned self1 @ [ConvergenceWarning] \<rparr>) = Inr True"
    by (auto simp: AdaExpFactory_is_converged_def split: if_splits)
  with init loop conv run show ?thesis by blast
qed

subsection \<open>The adaptive rule for the next scale factor\<close>

text \<open>
  Claim C4, amended. For every AdaExpFactory holding at least 3 points, if the probe fit
  of the exponential model on the current data succeeds and \<open>exponent\<close> is its third
  fitted parameter, \<^verbatim>\<open>next()\<close> returns the input record with
  \<^verbatim>\<open>scale_factor = min(1 + 1.27846/|exponent + 1e-9|, max_scale_factor)\<close>; a zero
  denominator counts as infinity, so that the result is then \<^verbatim>\<open>max_scale_factor\<close>. The
  epsilon is added to the exponent before the absolute value is taken.
\<close>

theorem adaptive_next_scale_factor:
  assumes points: "3 \<le> length (instack self)"
    and fit: "AdaExpFactory_extrapolate be (get_scale_factors self) (get_expectation_values self)
                (adaexp_factory.asymptote self) (adaexp_factory.avoid_log self) (1 / 10 ^ 6) True
              = Inr (Full l e p c f, ws)"
    and third: "py_nth p 2 = Inr exponent"
  shows "\<exists>st. AdaExpFactory_next be self =
           Inr (\<lparr> in_record.scale_factor =
                     (if exponent + EPSILON = 0 then max_scale_factor self
                      else min (1 + SHIFT_FACTOR / \<bar>exponent + EPSILON\<bar>) (max_scale_factor self)),
                   others = Map.empty \<rparr>, st)
              \<and> opt_params st = Some p \<and> already_reduced st = False"
proof -
  from points have rule: "AdaExpFactory_next be self = adaptive_rule be self"
    by (auto simp: AdaExpFactory_next_def)
  show ?thesis
    unfolding rule
    by (simp add: adaptive_rule_def AdaExpFactory_reduce_def fit [simplified] store_fit_def
          Let_def py_nth_last third)
qed

theorem adaptive_next_scale_factor_witness:
  "\<exists>st. 3 \<le> length (instack ada_three_points) \<and>
        AdaExpFactory_next line_backend ada_three_points =
          Inr (\<lparr> in_record.scale_factor = min (1 + SHIFT_FACTOR / \<bar>- (6 * ln 2 / 11) + EPSILON\<bar>) 6,
                  others = Map.empty \<rparr>, st) \<and>
        opt_params st = Some [0, 16 * ln 2 / 11, - (6 * ln 2 / 11)]"
proof -
  from polyexp_123_211_full obtain l f where e:
    "PolyExpFactory_extrapolate line_backend [1, 2, 3] [2, 1, 1] 1 (Some 0) False (1 / 10 ^ 6) True
       = Inr (Full l None [0, 16 * ln 2 / 11, - (6 * ln 2 / 11)] None f, [])"
    by blast
  have points: "3 \<le> length (instack ada_three_points)"
    by (simp add: ada_three_points_def)
  have fit: "AdaExpFactory_extrapolate line_backend (get_scale_factors ada_three_points)
                (get_expectation_values ada_three_points)
                (adaexp_factory.asymptote ada_three_points)
                (adaexp_factory.avoid_log ada_three_points) (1 / 10 ^ 6) True
              = Inr (Full l None [0, 16 * ln 2 / 11, - (6 * ln 2 / 11)] None f, [])"
    using e
    by (simp add: AdaExpFactory_extrapolate_def ExpFactory_extrapolate_def ada_three_points_def
          get_scale_factors_def get_expectation_values_def Factory_init_def factory.defs
          adaexp_factory.defs)
  have third: "py_nth [0, 16 * ln 2 / 11, - (6 * ln 2 / 11)] 2 = Inr (- (6 * ln 2 / 11) :: real)"
    by (simp add: py_nth_def)
  have ne: "- (6 * ln 2 / 11) + EPSILON \<noteq> (0::real)"
    using ln2_ge_half by (simp add: EPSILON_def)
  have mx: "max_scale_factor ada_three_points = 6"
    by (simp add: ada_three_points_def adaexp_factory.defs factory.defs)
  from adaptive_next_scale_factor [OF points fit third] ne mx points show ?thesis
    by auto
qed

lemma rule_differs:
  assumes x: "27 / 100 \<le> (x::real)"
  shows "min (1 + SHIFT_FACTOR / \<bar>- x + EPSILON\<bar>) 6
           \<noteq> min (1 + SHIFT_FACTOR / (\<bar>- x\<bar> + EPSILON)) 6"
proof -
  have eps: "EPSILON = 1 / 10 ^ 9" and sh: "SHIFT_FACTOR = 127846 / 100000"
    by (simp_all add: EPSILON_def SHIFT_FACTOR_def)
  from x have pos: "0 < x - EPSILON" by (simp add: eps)
  from x have abs1: "\<bar>- x + EPSILON\<bar> = x - EPSILON" by (simp add: eps)
  from x have abs2: "\<bar>- x\<bar> + EPSILON = x + EPSILON" by simp
  have lt: "SHIFT_FACTOR / (x + EPSILON) < SHIFT_FACTOR / (x - EPSILON)"
    using pos by (intro divide_strict_left_mono) (simp_all add: eps sh)
  have "SHIFT_FACTOR < 5 * (x - EPSILON)" using x by (simp add: eps sh)
  with pos have small: "SHIFT_FACTOR / (x - EPSILON) < 5"
    by (simp add: pos_divide_less_eq)
  have gen: "\<And>a b :: real. b < a \<Longrightarrow> a < 6 \<Longrightarrow> min a 6 \<noteq> min b 6"
    by (simp add: min_def)
  from lt have "1 + SHIFT_FACTOR / (x + EPSILON) < 1 + SHIFT_FACTOR / (x - EPSILON)" by simp
  moreover from small have "1 + SHIFT_FACTOR / (x - EPSILON) < 6" by simp
  ultimately show ?thesis unfolding abs1 abs2 by (rule gen)
qed

lemma ada_three_points_reachable:
  "AdaExpFactory_init 5 2 (Some 0) False 6 = Inr a0 \<Longrightarrow>
   adaexp_steps be a0
     [APush \<lparr> in_record.scale_factor = 1, others = Map.empty \<rparr> 2,
      APush \<lparr> in_record.scale_factor = 2, others = Map.empty \<rparr> 1,
      APush \<lparr> in_record.scale_factor = 3, others = Map.empty \<rparr> 1] = Inr ada_three_points"
  by (auto simp: AdaExpFactory_init_def ada_three_points_def push_def Let_def Factory_init_def
        factory.defs adaexp_factory.defs)

text \<open>The claim as stated fails on a factory with three points and a negative fitted
  exponent: the scale factor returned by \<^verbatim>\<open>next()\<close> is not
  \<^verbatim>\<open>min(1 + 1.27846/(|exponent| + 1e-9), max_scale_factor)\<close>.\<close>

theorem adaptive_next_scale_factor_counterexample:
  "length (instack ada_three_points) = 3 \<and>
   (case AdaExpFactory_next line_backend ada_three_points of
      Inl err \<Rightarrow> False
    | Inr (r, st) \<Rightarrow>
        py_nth (items (opt_params st)) 2 = Inr (- (6 * ln 2 / 11)) \<and>
        in_record.scale_factor r
          \<noteq> min (1 + SHIFT_FACTOR / (\<bar>- (6 * ln 2 / 11)\<bar> + EPSILON)) (max_scale_factor st))"
proof -
  from polyexp_123_211_full obtain l f where e:
    "PolyExpFactory_extrapolate line_backend [1, 2, 3] [2, 1, 1] 1 (Some 0) False (1 / 10 ^ 6) True
       = Inr (Full l None [0, 16 * ln 2 / 11, - (6 * ln 2 / 11)] None f, [])"
    by blast
  have ne: "- (6 * ln 2 / 11) + EPSILON \<noteq> (0::real)"
    using ln2_ge_half by (simp add: EPSILON_def)
  obtain st where
    nxt: "AdaExpFactory_next line_backend ada_three_points =
            Inr (\<lparr> in_record.scale_factor = min (1 + SHIFT_FACTOR / \<bar>- (6 * ln 2 / 11) + EPSILON\<bar>) 6,
                    others = Map.empty \<rparr>, st)"
    and pars: "opt_params st = Some [0, 16 * ln 2 / 11, - (6 * ln 2 / 11)]"
    and mx: "max_scale_factor st = 6"
    using ne
    by (simp add: AdaExpFactory_next_def adaptive_rule_def AdaExpFactory_reduce_def
          AdaExpFactory_extrapolate_def ExpFactory_extrapolate_def ada_three_points_def
          get_scale_factors_def get_expectation_values_def e [simplified] store_fit_def Let_def
          py_nth_def Factory_init_def factory.defs adaexp_factory.defs)
  have "27 / 100 \<le> 6 * ln 2 / (11 :: real)"
    using ln2_ge_half by simp
  from rule_differs [OF this]
  have "min (1 + SHIFT_FACTOR / \<bar>- (6 * ln 2 / 11) + EPSILON\<bar>) 6
          \<noteq> min (1 + SHIFT_FACTOR / (\<bar>- (6 * ln 2 / 11)\<bar> + EPSILON)) 6" .
  moreover have "length (instack ada_three_points) = 3"
    by (simp add: ada_three_points_def)
  ultimately show ?thesis
    by (simp add: nxt pars mx py_nth_def)
qed

subsection \<open>The limit returned by the logarithmic fit with full output\<close>

lemma case3_full_limit:
  assumes "PolyExp_case3 be sfs evs ord a eps True sign ws0 = Inr (Full l e p c f, ws)"
  shows "\<exists>z cov1 ws1.
     mitiq_polyfit be sfs (map ln (map (\<lambda>y. max (sign * (y - a)) eps) evs)) ord
        (Some (map (\<lambda>s. sqrt \<bar>s\<bar>) (map (\<lambda>y. max (sign * (y - a)) eps) evs)))
       = Inr ((z, cov1), ws1) \<and>
     l = a + sign * exp (polyval z 0) \<and> p = a # rev z \<and>
     f = (\<lambda>x. Inr (a + sign * exp (polyval z x)))"
  using assms
  by (auto simp: PolyExp_case3_def Let_def bindE_eq_Inr polyval_zero_last)

text \<open>
  With \<^verbatim>\<open>full_output=True\<close> the logarithmic fit returns what the model promises: the
  first component is \<open>asymptote + sign * exp (z 0)\<close>, where \<open>sign\<close> is the sign of
  minus the slope of the degree-1 fit of the data and \<open>z\<close> the polynomial fitted to the
  logarithm of the shifted data with the weights \<open>sqrt |shifted y|\<close>; the parameters
  are the asymptote followed by the coefficients of \<open>z\<close> from the lowest power up.
\<close>

theorem polyexp_log_fit_full_limit:
  assumes "PolyExpFactory_extrapolate be sfs evs ord (Some a) False eps True
             = Inr (Full l e p c f, ws)"
  shows "\<exists>lin cov0 ws0 slope z cov1 ws1.
     mitiq_polyfit be sfs evs 1 None = Inr ((lin, cov0), ws0) \<and>
     py_nth lin 0 = Inr slope \<and>
     mitiq_polyfit be sfs (map ln (map (\<lambda>y. max (sgn (- slope) * (y - a)) eps) evs)) ord
        (Some (map (\<lambda>s. sqrt \<bar>s\<bar>) (map (\<lambda>y. max (sgn (- slope) * (y - a)) eps) evs)))
       = Inr ((z, cov1), ws1) \<and>
     l = a + sgn (- slope) * exp (polyval z 0) \<and> p = a # rev z \<and>
     f = (\<lambda>x. Inr (a + sgn (- slope) * exp (polyval z x)))"
proof -
  from assms obtain lin cov0 ws0 slope where
    pre: "mitiq_polyfit be sfs evs 1 None = Inr ((lin, cov0), ws0)" "py_nth lin 0 = Inr slope"
    and main: "PolyExp_case3 be sfs evs ord a eps True (sgn (- slope)) ws0
                 = Inr (Full l e p c f, ws)"
    by (auto simp: PolyExpFactory_extrapolate_def Let_def bindE_eq_Inr split: if_splits)
  from case3_full_limit [OF main] pre show ?thesis
    by blast
qed

theorem polyexp_log_fit_full_limit_witness:
  "\<exists>f. PolyExpFactory_extrapolate line_backend [1, 2] [2, 1] 1 (Some 0) False (1 / 10 ^ 6) True
          = Inr (Full 4 None [0, 2 * ln 2, - ln 2] None f, []) \<and>
        (\<exists>slope z. 4 = 0 + sgn (- slope) * exp (polyval z 0) \<and> [0, 2 * ln 2, - ln 2] = 0 # rev z)"
proof -
  from polyexp_12_21_full obtain f where h:
    "PolyExpFactory_extrapolate line_backend [1, 2] [2, 1] 1 (Some 0) False (1 / 10 ^ 6) True
       = Inr (Full 4 None [0, 2 * ln 2, - ln 2] None f, [])"
    by blast
  from polyexp_log_fit_full_limit [OF h] h show ?thesis
    by blast
qed

end
